theory Spec2Isabelle
  imports Complex_Main
begin

section \<open>Data model\<close>

text \<open>
  The zoom/pan components keep their numbers in JavaScript \<open>number\<close>s. In the sections on
  real arithmetic a number is a \<open>real\<close>: every finite computation is exact and nothing
  rounds. That model is faithful as long as no division has a zero divisor (JavaScript
  answers \<open>Infinity\<close> or \<open>NaN\<close> there, HOL answers \<open>0\<close>), so every theorem about a
  quotient names its divisor's being non-zero. The special values are modelled on their own in
  the section on non-finite numbers.

  A point \<open>{ x, y }\<close> is a pair. A state update \<open>setZoomPan\<close> takes effect where it is
  requested: handlers run one at a time, and an updater function sees the state the
  earlier updates left.
\<close>

type_synonym Point = "real \<times> real"

text \<open>\<open>interface ZoomPanState\<close>, the React state of every DOM-transform variant.\<close>

record ZoomPanState =
  scale :: real
  translateX :: real
  translateY :: real
  isImmediate :: bool

text \<open>The numeric props of \<open>ZoomPanProps\<close>, with their defaults below.\<close>

record ZoomPanProps =
  minScale :: real
  maxScale :: real
  initialScale :: real
  zoomStep :: real

definition defaultProps :: ZoomPanProps where
  "defaultProps = \<lparr>minScale = 0.1, maxScale = 5, initialScale = 1, zoomStep = 0.1\<rparr>"

text \<open>The snapshot \<open>touchStartRef.current\<close> taken by \<open>onTouchStart\<close>.\<close>

record TouchStart =
  start_touches :: "Point list"
  start_distance :: real
  start_center :: Point
  start_scale :: real
  start_translateX :: real
  start_translateY :: real

text \<open>\<open>{ scale, x, y }\<close>, the shape of \<open>currentRef.current\<close> and \<open>targetRef.current\<close>.\<close>

record Transform =
  t_scale :: real
  t_x :: real
  t_y :: real

text \<open>
  The mutable cells of one mounted component: the React state \<open>zoomPan\<close> and the refs.
  \<open>rafRef\<close> is read for truthiness only, so it is a flag: a frame is scheduled. The
  registry variant uses \<open>zoomPan\<close>, \<open>velocityRef\<close>, \<open>rafRef\<close> and \<open>touchStartRef\<close>; the
  variants with a physics loop use all of them.
\<close>

record Refs =
  zoomPan :: ZoomPanState
  currentRef :: Transform
  targetRef :: Transform
  velocityRef :: Point
  rafRef :: bool
  isDragging :: bool
  isPinching :: bool
  lastFrameTimeRef :: real
  touchStartRef :: "TouchStart option"

text \<open>What the handlers measure in the DOM.\<close>

record DOMRect =
  rectLeft :: real
  rectTop :: real
  rectWidth :: real
  rectHeight :: real

record Layout =
  contentWidth :: real
  contentHeight :: real
  containerWidth :: real
  containerHeight :: real

record WheelEvent =
  clientX :: real
  clientY :: real
  deltaY :: real
  deltaMode :: nat

section \<open>The registry variant (\<open>src/registry/mermaidcn/zoom-pan.tsx\<close>)\<close>

subsection \<open>Momentum\<close>

definition stopMomentum :: "Refs \<Rightarrow> Refs" where
  "stopMomentum c = c\<lparr>rafRef := False, velocityRef := (0, 0)\<rparr>"

text \<open>
  One run of the frame callback \<open>step\<close> inside \<open>startMomentum\<close>. When both velocity
  components are under \<open>0.05\<close> it returns at once: no frame is requested (the handle
  left in \<open>rafRef\<close> is the one of the frame that just ran) and the velocity stays as
  it is.
\<close>

definition momentumStep :: "Refs \<Rightarrow> Refs" where
  "momentumStep c =
    (let (vx, vy) = velocityRef c in
     if \<bar>vx\<bar> < 0.05 \<and> \<bar>vy\<bar> < 0.05 then c\<lparr>rafRef := False\<rparr>
     else
       let prev = zoomPan c in
       c\<lparr>zoomPan := prev\<lparr>translateX := translateX prev + vx,
                          translateY := translateY prev + vy,
                          isImmediate := True\<rparr>,
         velocityRef := (vx * 0.95, vy * 0.95),
         rafRef := True\<rparr>)"

text \<open>
  The momentum loop: \<open>startMomentum\<close> requests the first frame, and each frame runs
  \<open>step\<close> for as long as one is pending.
\<close>

definition startMomentum :: "Refs \<Rightarrow> Refs" where
  "startMomentum c = c\<lparr>rafRef := True\<rparr>"

fun momentumFrames :: "nat \<Rightarrow> Refs \<Rightarrow> Refs" where
  "momentumFrames 0 c = c"
| "momentumFrames (Suc n) c = (if rafRef c then momentumFrames n (momentumStep c) else c)"

subsection \<open>Button zoom\<close>

text \<open>\<open>getContainerCenter\<close>; the argument is the container's rectangle, if mounted.\<close>

definition getContainerCenter :: "DOMRect option \<Rightarrow> Point" where
  "getContainerCenter container =
    (case container of
       None \<Rightarrow> (0, 0)
     | Some rect \<Rightarrow> (rectWidth rect / 2, rectHeight rect / 2))"

definition applyZoomToPoint :: "ZoomPanProps \<Rightarrow> real \<Rightarrow> Point \<Rightarrow> Refs \<Rightarrow> Refs" where
  "applyZoomToPoint props delta point c0 =
    (let c = stopMomentum c0;
         prev = zoomPan c;
         newScale = min (maxScale props) (max (minScale props) (scale prev + delta));
         ratio = newScale / scale prev;
         newTranslateX = fst point - (fst point - translateX prev) * ratio;
         newTranslateY = snd point - (snd point - translateY prev) * ratio
     in c\<lparr>zoomPan := \<lparr>scale = newScale, translateX = newTranslateX,
                       translateY = newTranslateY, isImmediate = False\<rparr>\<rparr>)"

definition zoomIn :: "ZoomPanProps \<Rightarrow> DOMRect option \<Rightarrow> Refs \<Rightarrow> Refs" where
  "zoomIn props container c = applyZoomToPoint props (zoomStep props) (getContainerCenter container) c"

definition zoomOut :: "ZoomPanProps \<Rightarrow> DOMRect option \<Rightarrow> Refs \<Rightarrow> Refs" where
  "zoomOut props container c = applyZoomToPoint props (- zoomStep props) (getContainerCenter container) c"

definition resetZoom :: "ZoomPanProps \<Rightarrow> Refs \<Rightarrow> Refs" where
  "resetZoom props c0 =
    (let c = stopMomentum c0
     in c\<lparr>zoomPan := \<lparr>scale = initialScale props, translateX = 0, translateY = 0,
                       isImmediate = False\<rparr>\<rparr>)"

subsection \<open>Fit to view\<close>

text \<open>
  \<open>centerView\<close>. The layout is \<open>None\<close> when the container or its first child is missing;
  then, and when the content measures zero wide or high, it returns before any write.
\<close>

definition centerView :: "ZoomPanProps \<Rightarrow> Layout option \<Rightarrow> Refs \<Rightarrow> Refs" where
  "centerView props layout c =
    (case layout of
       None \<Rightarrow> c
     | Some l \<Rightarrow>
         if contentWidth l = 0 \<or> contentHeight l = 0 then c
         else
           let padding = 40;
               availableWidth = containerWidth l - padding;
               availableHeight = containerHeight l - padding;
               scaleX = availableWidth / contentWidth l;
               scaleY = availableHeight / contentHeight l;
               fitScale = min (maxScale props) (max (minScale props) (min scaleX scaleY));
               newTranslateX = (containerWidth l - contentWidth l * fitScale) / 2;
               newTranslateY = (containerHeight l - contentHeight l * fitScale) / 2
           in (stopMomentum c)\<lparr>zoomPan := \<lparr>scale = fitScale, translateX = newTranslateX,
                                          translateY = newTranslateY, isImmediate = False\<rparr>\<rparr>)"

subsection \<open>Wheel zoom\<close>

definition onWheel :: "ZoomPanProps \<Rightarrow> WheelEvent \<Rightarrow> DOMRect \<Rightarrow> Refs \<Rightarrow> Refs" where
  "onWheel props e rect c0 =
    (let c = stopMomentum c0;
         mouseX = clientX e - rectLeft rect;
         mouseY = clientY e - rectTop rect;
         prev = zoomPan c;
         delta = deltaY e;
         delta = (if deltaMode e = 1 then delta * 40 else delta);
         delta = (if deltaMode e = 2 then delta * 800 else delta);
         ZOOM_SENSITIVITY = 0.002;
         scaleFactor = exp (- delta * ZOOM_SENSITIVITY);
         newScale = min (maxScale props) (max (minScale props) (scale prev * scaleFactor));
         ratio = newScale / scale prev;
         newTranslateX = mouseX - (mouseX - translateX prev) * ratio;
         newTranslateY = mouseY - (mouseY - translateY prev) * ratio
     in c\<lparr>zoomPan := \<lparr>scale = newScale, translateX = newTranslateX,
                       translateY = newTranslateY, isImmediate = True\<rparr>\<rparr>)"

subsection \<open>Touch\<close>

text \<open>The argument is \<open>e.touches\<close>, each touch as \<open>(clientX, clientY)\<close>.\<close>

definition getTouchDistance :: "Point list \<Rightarrow> real" where
  "getTouchDistance touches =
    (if length touches < 2 then 0
     else
       let dx = fst (touches ! 0) - fst (touches ! 1);
           dy = snd (touches ! 0) - snd (touches ! 1)
       in sqrt (dx * dx + dy * dy))"

definition getTouchCenter :: "Point list \<Rightarrow> Point" where
  "getTouchCenter touches =
    (if length touches < 2 then (0, 0)
     else ((fst (touches ! 0) + fst (touches ! 1)) / 2,
           (snd (touches ! 0) + snd (touches ! 1)) / 2))"

definition onTouchMove :: "ZoomPanProps \<Rightarrow> Point list \<Rightarrow> DOMRect \<Rightarrow> Refs \<Rightarrow> Refs" where
  "onTouchMove props touches rect c =
    (case touchStartRef c of
       None \<Rightarrow> c
     | Some ts \<Rightarrow>
         if length touches = 1 \<and> length (start_touches ts) = 1 then
           let dx = fst (touches ! 0) - fst (start_touches ts ! 0);
               dy = snd (touches ! 0) - snd (start_touches ts ! 0)
           in c\<lparr>zoomPan := \<lparr>scale = start_scale ts,
                             translateX = start_translateX ts + dx,
                             translateY = start_translateY ts + dy,
                             isImmediate = True\<rparr>\<rparr>
         else if length touches = 2 \<and> start_distance ts > 0 then
           let newDist = getTouchDistance touches;
               newCenter = getTouchCenter touches;
               scaleRatio = newDist / start_distance ts;
               newScale = min (maxScale props) (max (minScale props) (start_scale ts * scaleRatio));
               oldScale = start_scale ts;
               oldTranslateX = start_translateX ts;
               oldTranslateY = start_translateY ts;
               oldCenterXRel = fst (start_center ts) - rectLeft rect;
               oldCenterYRel = snd (start_center ts) - rectTop rect;
               newCenterXRel = fst newCenter - rectLeft rect;
               newCenterYRel = snd newCenter - rectTop rect;
               contentX = (oldCenterXRel - oldTranslateX) / oldScale;
               contentY = (oldCenterYRel - oldTranslateY) / oldScale;
               newTranslateX = newCenterXRel - contentX * newScale;
               newTranslateY = newCenterYRel - contentY * newScale
           in c\<lparr>zoomPan := \<lparr>scale = newScale, translateX = newTranslateX,
                             translateY = newTranslateY, isImmediate = True\<rparr>\<rparr>
         else c)"

section \<open>The variants with a physics loop (\<open>src/components/zoom-pan.tsx\<close>)\<close>

text \<open>
  The file holds three components of the same name. The first two keep a displayed
  transform \<open>currentRef\<close> and a wanted transform \<open>targetRef\<close> and ease one toward the other
  in a frame callback: the first with fixed per-frame constants, the second scaled by
  the time between frames. The third draws on a canvas and is modelled further down.
\<close>

text \<open>The refs right after mount.\<close>

definition mounted :: "ZoomPanProps \<Rightarrow> Refs" where
  "mounted props =
    \<lparr>zoomPan = \<lparr>scale = initialScale props, translateX = 0, translateY = 0, isImmediate = False\<rparr>,
     currentRef = \<lparr>t_scale = initialScale props, t_x = 0, t_y = 0\<rparr>,
     targetRef = \<lparr>t_scale = initialScale props, t_x = 0, t_y = 0\<rparr>,
     velocityRef = (0, 0),
     rafRef = False,
     isDragging = False,
     isPinching = False,
     lastFrameTimeRef = 0,
     touchStartRef = None\<rparr>"

text \<open>
  \<open>commitToState\<close>: the displayed transform becomes the React state, the mode stays.
  \<open>updateDom\<close>, which copies the displayed transform into the element's style, has no
  part in the state kept here.
\<close>

definition commitToState :: "Refs \<Rightarrow> Refs" where
  "commitToState c =
    c\<lparr>zoomPan := \<lparr>scale = t_scale (currentRef c), translateX = t_x (currentRef c),
                   translateY = t_y (currentRef c), isImmediate = isImmediate (zoomPan c)\<rparr>\<rparr>"

subsection \<open>The loop with fixed constants (first component)\<close>

text \<open>
  The frame callback \<open>step\<close> of the first component, in the three blocks its comments
  number. Block 1, momentum when no gesture is active: the velocity above \<open>0.01\<close>
  moves the target and decays by \<open>0.92\<close>, a smaller one is zeroed.
\<close>

definition applyMomentum_fixed :: "Refs \<Rightarrow> Refs" where
  "applyMomentum_fixed c =
    (let target = targetRef c; velocity = velocityRef c
     in if \<not> isDragging c \<and> \<not> isPinching c then
          if \<bar>fst velocity\<bar> > 0.01 \<or> \<bar>snd velocity\<bar> > 0.01 then
            c\<lparr>targetRef := target\<lparr>t_x := t_x target + fst velocity,
                                  t_y := t_y target + snd velocity\<rparr>,
              velocityRef := (fst velocity * 0.92, snd velocity * 0.92)\<rparr>
          else c\<lparr>velocityRef := (0, 0)\<rparr>
        else c)"

text \<open>Block 2, interpolation of the displayed transform toward the target.\<close>

definition interpolate_fixed :: "Refs \<Rightarrow> Refs" where
  "interpolate_fixed c =
    (let target = targetRef c; current = currentRef c;
         lerpPan = 0.1;
         lerpZoom = 0.06;
         dx = t_x target - t_x current;
         dy = t_y target - t_y current;
         ds = t_scale target - t_scale current
     in c\<lparr>currentRef := \<lparr>t_scale = t_scale current + ds * lerpZoom,
                          t_x = t_x current + dx * lerpPan,
                          t_y = t_y current + dy * lerpPan\<rparr>\<rparr>)"

text \<open>
  Block 3, the stop test. \<open>dx\<close>, \<open>dy\<close> and \<open>ds\<close> are the distances block 2 measured,
  before it moved the displayed transform; the velocity is the one block 1 left.
\<close>

definition isStillMoving_fixed :: "Refs \<Rightarrow> bool" where
  "isStillMoving_fixed c =
    (let target = targetRef c; current = currentRef c; velocity = velocityRef c;
         dx = t_x target - t_x current;
         dy = t_y target - t_y current;
         ds = t_scale target - t_scale current
     in \<bar>dx\<bar> > 0.1 \<or> \<bar>dy\<bar> > 0.1 \<or> \<bar>ds\<bar> > 0.001 \<or>
        \<bar>fst velocity\<bar> > 0.1 \<or> \<bar>snd velocity\<bar> > 0.1)"

text \<open>\<open>startAnimation\<close> of the first component: a pending frame is left alone.\<close>

definition startAnimation_fixed :: "Refs \<Rightarrow> Refs" where
  "startAnimation_fixed c = (if rafRef c then c else c\<lparr>rafRef := True\<rparr>)"

text \<open>
  The effect on \<open>[zoomPan]\<close> of the first component, which runs after every state
  update: the target becomes the state; in immediate mode the loop is started,
  otherwise the displayed transform becomes a copy of the new target.
\<close>

definition syncRefs_fixed :: "Refs \<Rightarrow> Refs" where
  "syncRefs_fixed c =
    (let c1 = c\<lparr>targetRef := \<lparr>t_scale = scale (zoomPan c), t_x = translateX (zoomPan c),
                                t_y = translateY (zoomPan c)\<rparr>\<rparr>
     in if isImmediate (zoomPan c) then startAnimation_fixed c1
        else c1\<lparr>currentRef := targetRef c1\<rparr>)"

text \<open>
  The whole callback. When it stops it clears the handle and commits the displayed
  transform where the interpolation left it; the commit is a state update, so the
  effect \<open>syncRefs_fixed\<close> runs on the committed state before anything else does.
\<close>

definition step_fixed :: "Refs \<Rightarrow> Refs" where
  "step_fixed c =
    (let c1 = applyMomentum_fixed c;
         c2 = interpolate_fixed c1
     in if isStillMoving_fixed c1 \<or> isDragging c \<or> isPinching c then c2\<lparr>rafRef := True\<rparr>
        else syncRefs_fixed (commitToState (c2\<lparr>rafRef := False\<rparr>)))"

fun frames_fixed :: "nat \<Rightarrow> Refs \<Rightarrow> Refs" where
  "frames_fixed 0 c = c"
| "frames_fixed (Suc n) c = (if rafRef c then frames_fixed n (step_fixed c) else c)"

subsection \<open>The loop scaled by frame time (second component)\<close>

text \<open>\<open>startAnimation\<close>; \<open>now\<close> is what \<open>performance.now()\<close> answers.\<close>

definition startAnimation :: "real \<Rightarrow> Refs \<Rightarrow> Refs" where
  "startAnimation now c = (if rafRef c then c else c\<lparr>lastFrameTimeRef := now, rafRef := True\<rparr>)"

text \<open>
  The frame callback \<open>step(timestamp)\<close>, again in its three numbered blocks, each now
  scaled by \<open>timeScale = dt / 16.667\<close>. \<open>Math.pow\<close> has a positive base in both of its
  uses, where it is \<open>powr\<close>. Block 1, momentum.
\<close>

definition applyMomentum :: "real \<Rightarrow> Refs \<Rightarrow> Refs" where
  "applyMomentum timeScale c =
    (let target = targetRef c; velocity = velocityRef c
     in if \<not> isDragging c \<and> \<not> isPinching c then
          let friction = 0.95 powr timeScale in
          if \<bar>fst velocity\<bar> > 0.05 \<or> \<bar>snd velocity\<bar> > 0.05 then
            c\<lparr>targetRef := target\<lparr>t_x := t_x target + fst velocity * timeScale,
                                  t_y := t_y target + snd velocity * timeScale\<rparr>,
              velocityRef := (fst velocity * friction, snd velocity * friction)\<rparr>
          else c\<lparr>velocityRef := (0, 0)\<rparr>
        else c)"

text \<open>Block 2, interpolation.\<close>

definition interpolate :: "real \<Rightarrow> Refs \<Rightarrow> Refs" where
  "interpolate timeScale c =
    (let target = targetRef c; current = currentRef c;
         panFactor = 1 - (1 - 0.12) powr timeScale;
         zoomFactor = 1 - (1 - 0.12) powr timeScale;
         dx = t_x target - t_x current;
         dy = t_y target - t_y current;
         ds = t_scale target - t_scale current
     in c\<lparr>currentRef := \<lparr>t_scale = t_scale current + ds * zoomFactor,
                          t_x = t_x current + dx * panFactor,
                          t_y = t_y current + dy * panFactor\<rparr>\<rparr>)"

text \<open>Block 3, the stop test, on the distances measured before block 2 moved.\<close>

definition isStillMoving :: "Refs \<Rightarrow> bool" where
  "isStillMoving c =
    (let target = targetRef c; current = currentRef c; velocity = velocityRef c;
         dx = t_x target - t_x current;
         dy = t_y target - t_y current;
         ds = t_scale target - t_scale current
     in \<bar>dx\<bar> > 0.1 \<or> \<bar>dy\<bar> > 0.1 \<or> \<bar>ds\<bar> > 0.0001 \<or>
        \<bar>fst velocity\<bar> > 0.1 \<or> \<bar>snd velocity\<bar> > 0.1)"

text \<open>
  The whole callback. A frame more than 100 ms after the last one only reschedules.
  When the loop stops it snaps the displayed transform to the target and commits it.
\<close>

definition step :: "real \<Rightarrow> Refs \<Rightarrow> Refs" where
  "step timestamp c0 =
    (let dt = timestamp - lastFrameTimeRef c0;
         c = c0\<lparr>lastFrameTimeRef := timestamp\<rparr>
     in if dt > 100 then c\<lparr>rafRef := True\<rparr>
        else
          let timeScale = dt / 16.667;
              c1 = applyMomentum timeScale c;
              c2 = interpolate timeScale c1
          in if isStillMoving c1 \<or> isDragging c \<or> isPinching c then c2\<lparr>rafRef := True\<rparr>
             else commitToState (c2\<lparr>currentRef := targetRef c2, rafRef := False\<rparr>))"

text \<open>
  Frames that arrive a fixed \<open>dt\<close> milliseconds apart, for as long as one is pending.
\<close>

fun frames :: "nat \<Rightarrow> real \<Rightarrow> Refs \<Rightarrow> Refs" where
  "frames 0 dt c = c"
| "frames (Suc n) dt c =
     (if rafRef c then frames n dt (step (lastFrameTimeRef c + dt) c) else c)"

text \<open>
  The effect on \<open>[zoomPan]\<close>: after a state update it copies the state into the refs,
  wholly when no frame is pending, and only the target, for a button's update, when
  one is.
\<close>

definition syncRefs :: "Refs \<Rightarrow> Refs" where
  "syncRefs c =
    (let fromState = \<lparr>t_scale = scale (zoomPan c), t_x = translateX (zoomPan c),
                      t_y = translateY (zoomPan c)\<rparr>
     in if \<not> rafRef c then
          let c1 = c\<lparr>targetRef := fromState\<rparr>
          in if \<not> isImmediate (zoomPan c) then c1\<lparr>currentRef := fromState\<rparr> else c1
        else if \<not> isImmediate (zoomPan c) then c\<lparr>targetRef := fromState\<rparr> else c)"

text \<open>
  \<open>applyZoomToPoint\<close> of the second component: it works on the target, starts the loop
  and sets the state, whose effect \<open>syncRefs\<close> runs before the next frame.
\<close>

definition applyZoomToPoint_target ::
    "ZoomPanProps \<Rightarrow> real \<Rightarrow> real \<Rightarrow> Point \<Rightarrow> Refs \<Rightarrow> Refs" where
  "applyZoomToPoint_target props now delta point c =
    (let prevScale = t_scale (targetRef c);
         prevX = t_x (targetRef c);
         prevY = t_y (targetRef c);
         newScale = min (maxScale props) (max (minScale props) (prevScale + delta));
         ratio = newScale / prevScale;
         newX = fst point - (fst point - prevX) * ratio;
         newY = snd point - (snd point - prevY) * ratio;
         c1 = c\<lparr>targetRef := \<lparr>t_scale = newScale, t_x = newX, t_y = newY\<rparr>\<rparr>;
         c2 = startAnimation now c1
     in syncRefs (c2\<lparr>zoomPan := \<lparr>scale = newScale, translateX = newX, translateY = newY,
                                 isImmediate = False\<rparr>\<rparr>))"

definition zoomIn_target :: "ZoomPanProps \<Rightarrow> real \<Rightarrow> DOMRect option \<Rightarrow> Refs \<Rightarrow> Refs" where
  "zoomIn_target props now container c =
     applyZoomToPoint_target props now (zoomStep props) (getContainerCenter container) c"

definition zoomOut_target :: "ZoomPanProps \<Rightarrow> real \<Rightarrow> DOMRect option \<Rightarrow> Refs \<Rightarrow> Refs" where
  "zoomOut_target props now container c =
     applyZoomToPoint_target props now (- zoomStep props) (getContainerCenter container) c"

section \<open>Non-finite numbers\<close>

text \<open>
  A JavaScript number with its special values. Finite values stay exact reals: the
  model has no rounding, overflow or underflow, and it does not tell \<open>-0\<close> from \<open>0\<close>
  (a zero divisor counts as \<open>+0\<close>). What it keeps is how \<open>NaN\<close> and the infinities
  arise and travel through the operators and through \<open>Math.min\<close>, \<open>Math.max\<close> and
  \<open>Math.exp\<close>.
\<close>

datatype jsnum = NaN | NegInf | Fin real | PosInf

text \<open>An infinity times (or a finite value over zero with) the sign of \<open>a\<close>.\<close>

definition signedInf :: "real \<Rightarrow> jsnum" where
  "signedInf a = (if a = 0 then NaN else if 0 < a then PosInf else NegInf)"

fun js_neg :: "jsnum \<Rightarrow> jsnum" where
  "js_neg NaN = NaN"
| "js_neg NegInf = PosInf"
| "js_neg (Fin a) = Fin (- a)"
| "js_neg PosInf = NegInf"

fun js_mul :: "jsnum \<Rightarrow> jsnum \<Rightarrow> jsnum" where
  "js_mul (Fin a) (Fin b) = Fin (a * b)"
| "js_mul NaN _ = NaN"
| "js_mul _ NaN = NaN"
| "js_mul (Fin a) PosInf = signedInf a"
| "js_mul (Fin a) NegInf = signedInf (- a)"
| "js_mul PosInf (Fin b) = signedInf b"
| "js_mul NegInf (Fin b) = signedInf (- b)"
| "js_mul PosInf PosInf = PosInf"
| "js_mul PosInf NegInf = NegInf"
| "js_mul NegInf PosInf = NegInf"
| "js_mul NegInf NegInf = PosInf"

fun js_div :: "jsnum \<Rightarrow> jsnum \<Rightarrow> jsnum" where
  "js_div (Fin a) (Fin b) = (if b = 0 then signedInf a else Fin (a / b))"
| "js_div NaN _ = NaN"
| "js_div _ NaN = NaN"
| "js_div (Fin a) PosInf = Fin 0"
| "js_div (Fin a) NegInf = Fin 0"
| "js_div PosInf (Fin b) = (if 0 \<le> b then PosInf else NegInf)"
| "js_div NegInf (Fin b) = (if 0 \<le> b then NegInf else PosInf)"
| "js_div PosInf PosInf = NaN"
| "js_div PosInf NegInf = NaN"
| "js_div NegInf PosInf = NaN"
| "js_div NegInf NegInf = NaN"

fun js_sub :: "jsnum \<Rightarrow> jsnum \<Rightarrow> jsnum" where
  "js_sub (Fin a) (Fin b) = Fin (a - b)"
| "js_sub NaN _ = NaN"
| "js_sub _ NaN = NaN"
| "js_sub (Fin a) PosInf = NegInf"
| "js_sub (Fin a) NegInf = PosInf"
| "js_sub PosInf (Fin b) = PosInf"
| "js_sub NegInf (Fin b) = NegInf"
| "js_sub PosInf PosInf = NaN"
| "js_sub PosInf NegInf = PosInf"
| "js_sub NegInf PosInf = NegInf"
| "js_sub NegInf NegInf = NaN"

text \<open>A number plus a finite one.\<close>

fun js_add_fin :: "jsnum \<Rightarrow> real \<Rightarrow> jsnum" where
  "js_add_fin (Fin a) b = Fin (a + b)"
| "js_add_fin a b = a"

fun js_exp :: "jsnum \<Rightarrow> jsnum" where
  "js_exp NaN = NaN"
| "js_exp NegInf = Fin 0"
| "js_exp (Fin a) = Fin (exp a)"
| "js_exp PosInf = PosInf"

text \<open>\<open>Math.max\<close> and \<open>Math.min\<close> of two arguments: \<open>NaN\<close> if either is \<open>NaN\<close>.\<close>

fun js_max :: "jsnum \<Rightarrow> jsnum \<Rightarrow> jsnum" where
  "js_max (Fin a) (Fin b) = Fin (max a b)"
| "js_max NaN _ = NaN"
| "js_max _ NaN = NaN"
| "js_max PosInf _ = PosInf"
| "js_max _ PosInf = PosInf"
| "js_max NegInf b = b"
| "js_max a NegInf = a"

fun js_min :: "jsnum \<Rightarrow> jsnum \<Rightarrow> jsnum" where
  "js_min (Fin a) (Fin b) = Fin (min a b)"
| "js_min NaN _ = NaN"
| "js_min _ NaN = NaN"
| "js_min NegInf _ = NegInf"
| "js_min _ NegInf = NegInf"
| "js_min PosInf b = b"
| "js_min a PosInf = a"

text \<open>A number lies in a closed interval of finite bounds.\<close>

fun js_between :: "real \<Rightarrow> real \<Rightarrow> jsnum \<Rightarrow> bool" where
  "js_between lo hi (Fin a) = (lo \<le> a \<and> a \<le> hi)"
| "js_between lo hi _ = False"

record JTransform =
  j_scale :: jsnum
  j_x :: jsnum
  j_y :: jsnum

record JWheelEvent =
  j_clientX :: real
  j_clientY :: real
  j_deltaY :: jsnum
  j_deltaMode :: nat

subsection \<open>The wheel handlers on numbers with special values\<close>

text \<open>
  The state update of the registry's \<open>onWheel\<close>, on the transform part of the state
  (\<open>isImmediate\<close> becomes \<open>true\<close>).
\<close>

definition js_onWheel :: "ZoomPanProps \<Rightarrow> JWheelEvent \<Rightarrow> DOMRect \<Rightarrow> JTransform \<Rightarrow> JTransform" where
  "js_onWheel props e rect prev =
    (let mouseX = Fin (j_clientX e - rectLeft rect);
         mouseY = Fin (j_clientY e - rectTop rect);
         delta = j_deltaY e;
         delta = (if j_deltaMode e = 1 then js_mul delta (Fin 40) else delta);
         delta = (if j_deltaMode e = 2 then js_mul delta (Fin 800) else delta);
         ZOOM_SENSITIVITY = Fin 0.002;
         scaleFactor = js_exp (js_mul (js_neg delta) ZOOM_SENSITIVITY);
         newScale = js_min (Fin (maxScale props))
                      (js_max (Fin (minScale props)) (js_mul (j_scale prev) scaleFactor));
         ratio = js_div newScale (j_scale prev);
         newTranslateX = js_sub mouseX (js_mul (js_sub mouseX (j_x prev)) ratio);
         newTranslateY = js_sub mouseY (js_mul (js_sub mouseY (j_y prev)) ratio)
     in \<lparr>j_scale = newScale, j_x = newTranslateX, j_y = newTranslateY\<rparr>)"

text \<open>The second component's \<open>onWheel\<close>, which mutates the target in place.\<close>

definition js_onWheel_target ::
    "ZoomPanProps \<Rightarrow> JWheelEvent \<Rightarrow> DOMRect \<Rightarrow> JTransform \<Rightarrow> JTransform" where
  "js_onWheel_target props e rect target =
    (let mouseX = Fin (j_clientX e - rectLeft rect);
         mouseY = Fin (j_clientY e - rectTop rect);
         delta = j_deltaY e;
         delta = (if j_deltaMode e = 1 then js_mul delta (Fin 40) else delta);
         delta = (if j_deltaMode e = 2 then js_mul delta (Fin 800) else delta);
         ZOOM_SENSITIVITY = Fin 0.0015;
         scaleFactor = js_exp (js_mul (js_neg delta) ZOOM_SENSITIVITY);
         newScale = js_min (Fin (maxScale props))
                      (js_max (Fin (minScale props)) (js_mul (j_scale target) scaleFactor));
         ratio = js_div newScale (j_scale target);
         x' = js_sub mouseX (js_mul (js_sub mouseX (j_x target)) ratio);
         y' = js_sub mouseY (js_mul (js_sub mouseY (j_y target)) ratio)
     in \<lparr>j_scale = newScale, j_x = x', j_y = y'\<rparr>)"

section \<open>The canvas variant (third component of \<open>src/components/zoom-pan.tsx\<close>)\<close>

text \<open>
  The refs of the canvas component that the control functions and the wheel handler
  touch. \<open>updateSmooth\<close> and \<open>updateImmediate\<close> cancel a pending frame and request a new
  one, which leaves one pending.
\<close>

record CanvasRefs =
  cv_currentRef :: JTransform
  cv_targetRef :: JTransform
  cv_rafRef :: bool

definition updateSmooth :: "CanvasRefs \<Rightarrow> CanvasRefs" where
  "updateSmooth c = c\<lparr>cv_rafRef := True\<rparr>"

definition updateImmediate :: "CanvasRefs \<Rightarrow> CanvasRefs" where
  "updateImmediate c = c\<lparr>cv_rafRef := True\<rparr>"

text \<open>
  \<open>getCenterTransform\<close>. The arguments are the canvas's \<open>(clientWidth, clientHeight)\<close>
  and of the image \<open>(width, height)\<close>, each \<open>None\<close> when the ref is empty.
\<close>

definition getCenterTransform :: "Point option \<Rightarrow> Point option \<Rightarrow> JTransform option" where
  "getCenterTransform canvas img =
    (case (canvas, img) of
       (Some (clientWidth, clientHeight), Some (width, height)) \<Rightarrow>
         let scaleX = js_div (Fin clientWidth) (Fin width);
             scaleY = js_div (Fin clientHeight) (Fin height);
             scale' = js_mul (js_min scaleX scaleY) (Fin 0.9);
             x = js_div (js_sub (Fin clientWidth) (js_mul (Fin width) scale')) (Fin 2);
             y = js_div (js_sub (Fin clientHeight) (js_mul (Fin height) scale')) (Fin 2)
         in Some \<lparr>j_scale = scale', j_x = x, j_y = y\<rparr>
     | _ \<Rightarrow> None)"

definition centerView_canvas :: "Point option \<Rightarrow> Point option \<Rightarrow> CanvasRefs \<Rightarrow> CanvasRefs" where
  "centerView_canvas canvas img c =
    (case getCenterTransform canvas img of
       None \<Rightarrow> c
     | Some center \<Rightarrow> updateSmooth (c\<lparr>cv_targetRef := center\<rparr>))"

text \<open>
  \<open>applyZoom\<close>, behind the canvas component's \<open>zoomIn\<close> and \<open>zoomOut\<close>; it returns at
  once when the container is not mounted.
\<close>

definition applyZoom :: "ZoomPanProps \<Rightarrow> real \<Rightarrow> DOMRect option \<Rightarrow> CanvasRefs \<Rightarrow> CanvasRefs" where
  "applyZoom props delta container c =
    (case container of
       None \<Rightarrow> c
     | Some rect \<Rightarrow>
         let target = cv_targetRef c;
             centerX = Fin (rectWidth rect / 2);
             centerY = Fin (rectHeight rect / 2);
             newScale = js_min (Fin (maxScale props))
                          (js_max (Fin (minScale props)) (js_add_fin (j_scale target) delta));
             ratio = js_div newScale (j_scale target);
             x' = js_sub centerX (js_mul (js_sub centerX (j_x target)) ratio);
             y' = js_sub centerY (js_mul (js_sub centerY (j_y target)) ratio)
         in updateSmooth (c\<lparr>cv_targetRef := \<lparr>j_scale = newScale, j_x = x', j_y = y'\<rparr>\<rparr>))"

text \<open>
  The canvas component's \<open>onWheel\<close>: line-mode deltas are scaled, nothing else is; the
  new target is computed from the displayed transform.
\<close>

definition onWheel_canvas ::
    "ZoomPanProps \<Rightarrow> JWheelEvent \<Rightarrow> DOMRect \<Rightarrow> CanvasRefs \<Rightarrow> CanvasRefs" where
  "onWheel_canvas props e rect c =
    (let mouseX = Fin (j_clientX e - rectLeft rect);
         mouseY = Fin (j_clientY e - rectTop rect);
         delta = j_deltaY e;
         delta = (if j_deltaMode e = 1 then js_mul delta (Fin 40) else delta);
         ZOOM_SENSITIVITY = Fin 0.0015;
         scaleFactor = js_exp (js_mul (js_neg delta) ZOOM_SENSITIVITY);
         current = cv_currentRef c;
         effectiveScale = js_min (Fin (maxScale props))
                            (js_max (Fin (minScale props)) (js_mul (j_scale current) scaleFactor));
         ratio = js_div effectiveScale (j_scale current);
         x' = js_sub mouseX (js_mul (js_sub mouseX (j_x current)) ratio);
         y' = js_sub mouseY (js_mul (js_sub mouseY (j_y current)) ratio)
     in updateImmediate (c\<lparr>cv_targetRef := \<lparr>j_scale = effectiveScale, j_x = x', j_y = y'\<rparr>\<rparr>))"

section \<open>Notions of the specification and fixtures\<close>

text \<open>
  \<open>clamp(v, lo, hi)\<close> as the specification words it: \<open>v\<close>, brought up to \<open>lo\<close> when below
  and down to \<open>hi\<close> when above. The code writes \<open>Math.min(hi, Math.max(lo, v))\<close>; the two
  agree when \<open>lo \<le> hi\<close> (lemma \<open>clamp_min_max\<close>).
\<close>

definition clamp :: "real \<Rightarrow> real \<Rightarrow> real \<Rightarrow> real" where
  "clamp v lo hi = (if v < lo then lo else if v > hi then hi else v)"

text \<open>The canvas component's refs right after mount.\<close>

definition canvasMounted :: "ZoomPanProps \<Rightarrow> CanvasRefs" where
  "canvasMounted props =
    \<lparr>cv_currentRef = \<lparr>j_scale = Fin (initialScale props), j_x = Fin 0, j_y = Fin 0\<rparr>,
     cv_targetRef = \<lparr>j_scale = Fin (initialScale props), j_x = Fin 0, j_y = Fin 0\<rparr>,
     cv_rafRef = False\<rparr>"

text \<open>A press of one of the two zoom buttons of the registry component.\<close>

datatype Button = ZoomIn | ZoomOut

fun press :: "ZoomPanProps \<Rightarrow> DOMRect option \<Rightarrow> Refs \<Rightarrow> Button \<Rightarrow> Refs" where
  "press props container c ZoomIn = zoomIn props container c"
| "press props container c ZoomOut = zoomOut props container c"

text \<open>An 800 by 600 container at the page origin.\<close>

definition viewport :: DOMRect where
  "viewport = \<lparr>rectLeft = 0, rectTop = 0, rectWidth = 800, rectHeight = 600\<rparr>"

text \<open>
  The registry component after \<open>onTouchStart\<close> with two fingers 100 pixels apart around
  the middle of the viewport, at scale 1.
\<close>

definition pinchStarted :: Refs where
  "pinchStarted = (mounted defaultProps)
     \<lparr>touchStartRef := Some \<lparr>start_touches = [(350, 300), (450, 300)], start_distance = 100,
          start_center = (400, 300), start_scale = 1, start_translateX = 0,
          start_translateY = 0\<rparr>\<rparr>"

text \<open>A wheel notch toward the user at (200, 150), in pixel mode.\<close>

definition wheelIn :: WheelEvent where
  "wheelIn = \<lparr>clientX = 200, clientY = 150, deltaY = - 100, deltaMode = 0\<rparr>"

text \<open>Wheel events for the handlers on numbers with special values.\<close>

definition wheelPage :: JWheelEvent where
  "wheelPage = \<lparr>j_clientX = 200, j_clientY = 150, j_deltaY = Fin 1, j_deltaMode = 2\<rparr>"

definition wheelNaN :: JWheelEvent where
  "wheelNaN = \<lparr>j_clientX = 200, j_clientY = 150, j_deltaY = NaN, j_deltaMode = 0\<rparr>"

definition wheelFar :: JWheelEvent where
  "wheelFar = \<lparr>j_clientX = 200, j_clientY = 150, j_deltaY = PosInf, j_deltaMode = 0\<rparr>"

definition jIdentity :: JTransform where
  "jIdentity = \<lparr>j_scale = Fin 1, j_x = Fin 0, j_y = Fin 0\<rparr>"

text \<open>
  Layouts with a degenerate measure: a container that measures zero (hidden or not
  laid out) around 100 by 100 content, and content that measures zero.
\<close>

definition hiddenLayout :: Layout where
  "hiddenLayout = \<lparr>contentWidth = 100, contentHeight = 100, containerWidth = 0, containerHeight = 0\<rparr>"

definition emptyLayout :: Layout where
  "emptyLayout = \<lparr>contentWidth = 0, contentHeight = 0, containerWidth = 800, containerHeight = 600\<rparr>"

text \<open>
  The stopped state of the specification: no frame pending, the displayed transform
  equal to the target, and the React state equal to the displayed transform.
\<close>

definition settled :: "Refs \<Rightarrow> bool" where
  "settled c \<longleftrightarrow> \<not> rafRef c \<and> currentRef c = targetRef c \<and>
     scale (zoomPan c) = t_scale (currentRef c) \<and> translateX (zoomPan c) = t_x (currentRef c) \<and>
     translateY (zoomPan c) = t_y (currentRef c)"

text \<open>No gesture is active.\<close>

definition idle :: "Refs \<Rightarrow> bool" where
  "idle c \<longleftrightarrow> \<not> isDragging c \<and> \<not> isPinching c"

text \<open>The magnitude of a velocity.\<close>

definition magnitude :: "Point \<Rightarrow> real" where
  "magnitude v = sqrt ((fst v)\<^sup>2 + (snd v)\<^sup>2)"

text \<open>
  The state of the second component's loop after \<open>n\<close> coasting frames at \<open>timeScale = 1\<close>
  from the velocity \<open>(10, 0)\<close>: the loop runs, no gesture is active, the velocity has
  decayed \<open>n\<close> times, and the displayed transform trails the target by enough to keep
  the loop running.
\<close>

definition coastingAt :: "nat \<Rightarrow> Refs \<Rightarrow> bool" where
  "coastingAt n c \<longleftrightarrow> rafRef c \<and> idle c \<and> velocityRef c = (10 * (95 / 100) ^ n, 0) \<and>
     (let g = t_x (targetRef c) - t_x (currentRef c)
      in 0 \<le> g \<and> (n = 1 \<longrightarrow> 8.8 \<le> g) \<and> (2 \<le> n \<longrightarrow> 15 * (95 / 100) ^ n \<le> g))"

text \<open>
  A drag released with the recorded velocity \<open>(10, 0)\<close>: the loop is running and the
  displayed transform has caught up with the target.
\<close>

definition released :: Refs where
  "released = (mounted defaultProps)\<lparr>velocityRef := (10, 0), rafRef := True\<rparr>"

text \<open>
  The first component with its target one pixel to the right of what is displayed,
  at rest and with no gesture active: a one-pixel drag, let go after the pointer
  has stopped.
\<close>

definition nudged :: Refs where
  "nudged = (mounted defaultProps)\<lparr>targetRef := \<lparr>t_scale = 1, t_x = 1, t_y = 0\<rparr>, rafRef := True\<rparr>"

section \<open>Clamping\<close>

lemma clamp_min_max: "lo \<le> hi \<Longrightarrow> min hi (max lo v) = clamp v lo hi"
  by (simp add: clamp_def min_def max_def)

lemma min_max_in_range: "lo \<le> hi \<Longrightarrow> lo \<le> min hi (max lo v) \<and> min hi (max lo (v::real)) \<le> hi"
  by (simp add: min_def max_def)

lemma clamp_id: "lo \<le> v \<Longrightarrow> v \<le> hi \<Longrightarrow> min hi (max lo v) = (v::real)"
  by (simp add: min_def max_def)

subsection \<open>Write sites that clamp\<close>

lemma applyZoomToPoint_in_range:
  "minScale props \<le> maxScale props \<Longrightarrow>
   minScale props \<le> scale (zoomPan (applyZoomToPoint props delta point c)) \<and>
   scale (zoomPan (applyZoomToPoint props delta point c)) \<le> maxScale props"
  by (simp add: applyZoomToPoint_def Let_def min_def max_def)

lemma press_in_range:
  "minScale props \<le> maxScale props \<Longrightarrow>
   minScale props \<le> scale (zoomPan (press props container c b)) \<and>
   scale (zoomPan (press props container c b)) \<le> maxScale props"
  by (cases b) (simp_all add: zoomIn_def zoomOut_def applyZoomToPoint_in_range)

lemma presses_in_range:
  assumes "minScale props \<le> maxScale props"
      and "minScale props \<le> scale (zoomPan c)" and "scale (zoomPan c) \<le> maxScale props"
  shows "minScale props \<le> scale (zoomPan (foldl (press props container) c bs)) \<and>
         scale (zoomPan (foldl (press props container) c bs)) \<le> maxScale props"
  using assms(2,3)
proof (induction bs arbitrary: c)
  case Nil then show ?case by simp
next
  case (Cons b bs)
  show ?case using Cons.IH [of "press props container c b"] press_in_range [OF assms(1)]
    by simp
qed

lemma onWheel_in_range:
  "minScale props \<le> maxScale props \<Longrightarrow>
   minScale props \<le> scale (zoomPan (onWheel props e rect c)) \<and>
   scale (zoomPan (onWheel props e rect c)) \<le> maxScale props"
  by (simp add: onWheel_def Let_def min_def max_def)

lemma pinch_in_range:
  "minScale props \<le> maxScale props \<Longrightarrow> touchStartRef c = Some ts \<Longrightarrow> length touches = 2 \<Longrightarrow>
   0 < start_distance ts \<Longrightarrow>
   minScale props \<le> scale (zoomPan (onTouchMove props touches rect c)) \<and>
   scale (zoomPan (onTouchMove props touches rect c)) \<le> maxScale props"
  by (simp add: onTouchMove_def Let_def min_def max_def)

lemma centerView_in_range:
  "minScale props \<le> maxScale props \<Longrightarrow> contentWidth l \<noteq> 0 \<Longrightarrow> contentHeight l \<noteq> 0 \<Longrightarrow>
   minScale props \<le> scale (zoomPan (centerView props (Some l) c)) \<and>
   scale (zoomPan (centerView props (Some l) c)) \<le> maxScale props"
  by (simp add: centerView_def Let_def stopMomentum_def min_max_in_range)

text \<open>
  Claim C1. Every sequence of \<open>zoomIn\<close> and \<open>zoomOut\<close> calls keeps the scale within
  \<open>[minScale, maxScale]\<close> (lemma \<open>presses_in_range\<close>), and the button, wheel, pinch and
  fit-to-view handlers of the registry component clamp where they write (the lemmas
  above). The canvas component's fit-to-view does not: \<open>getCenterTransform\<close> answers
  \<open>Math.min(scaleX, scaleY) * 0.9\<close> as it is and \<open>centerView\<close> stores it in the target.
  For a 100 by 100 image in an 800 by 600 canvas with the default bounds \<open>[0.1, 5]\<close> the
  stored scale is \<open>5.4\<close>.
\<close>

theorem canvas_fit_unclamped:
  "cv_targetRef (centerView_canvas (Some (800, 600)) (Some (100, 100)) (canvasMounted defaultProps))
     = \<lparr>j_scale = Fin 5.4, j_x = Fin 130, j_y = Fin 30\<rparr>
   \<and> \<not> js_between (minScale defaultProps) (maxScale defaultProps) (Fin 5.4)"
  by (simp add: centerView_canvas_def getCenterTransform_def updateSmooth_def canvasMounted_def
      defaultProps_def Let_def)

section \<open>Anchored zoom\<close>

lemma onTouchMove_pinch:
  assumes "touchStartRef c = Some ts" and "length touches = 2" and "0 < start_distance ts"
  shows "zoomPan (onTouchMove props touches rect c) =
    (let newScale = min (maxScale props)
           (max (minScale props) (start_scale ts * (getTouchDistance touches / start_distance ts)));
         contentX = (fst (start_center ts) - rectLeft rect - start_translateX ts) / start_scale ts;
         contentY = (snd (start_center ts) - rectTop rect - start_translateY ts) / start_scale ts
     in \<lparr>scale = newScale,
         translateX = fst (getTouchCenter touches) - rectLeft rect - contentX * newScale,
         translateY = snd (getTouchCenter touches) - rectTop rect - contentY * newScale,
         isImmediate = True\<rparr>)"
  using assms by (simp add: onTouchMove_def Let_def)

lemma getTouchDistance_horizontal: "getTouchDistance [(a, b), (c, b)] = \<bar>a - c\<bar>"
  by (simp add: getTouchDistance_def)

text \<open>
  Claim C2 as stated gives pinch zoom one anchor, the midpoint of the two touches,
  and compares the transform after the move with the one before it. A pinch that
  also moves the fingers breaks that identity for either midpoint. From scale 1 and
  offset 0, with the touches 100 apart around (400, 300) at the start and 200 apart
  around (400, 320) now, the new scale 2 is within the bounds; under the new
  midpoint lies the content height 300 where 320 lay before, and under the old
  midpoint 290 where 300 lay.
\<close>

theorem pinch_one_anchor_counterexample:
  "(let p = zoomPan pinchStarted;
        q = zoomPan (onTouchMove defaultProps [(300, 320), (500, 320)] viewport pinchStarted)
    in getTouchCenter [(300, 320), (500, 320)] = (400, 320)
       \<and> scale p = 1 \<and> scale q = 2 \<and> minScale defaultProps < scale q \<and> scale q < maxScale defaultProps
       \<and> (320 - translateY q) / scale q = 300 \<and> (320 - translateY p) / scale p = 320
       \<and> (320 - translateY q) / scale q \<noteq> (320 - translateY p) / scale p
       \<and> (300 - translateY q) / scale q = 290 \<and> (300 - translateY p) / scale p = 300
       \<and> (300 - translateY q) / scale q \<noteq> (300 - translateY p) / scale p)"
  by (simp add: onTouchMove_def pinchStarted_def mounted_def defaultProps_def viewport_def
      getTouchDistance_horizontal getTouchCenter_def Let_def)

text \<open>
  Claim C2, amended: the anchoring invariant of the registry component. Wheel zoom
  keeps the content point under the mouse position, button zoom the one under the
  point it is given (the container centre): the content point under the anchor before
  the operation lies under the same screen point after it. Pinch zoom has two screen
  points and its own reference: it carries the content point that lay under the
  gesture-start midpoint, in the transform recorded at gesture start, to the current
  midpoint of the touches. Each holds whenever the scales it divides by are not zero,
  whether or not the new scale was clamped: the offsets are computed from the scale
  that is stored.
\<close>

theorem anchoring_invariant:
  "(scale (zoomPan c) \<noteq> 0 \<and> scale (zoomPan (onWheel props e rect c)) \<noteq> 0 \<longrightarrow>
      (let p = zoomPan c; q = zoomPan (onWheel props e rect c);
           mouseX = clientX e - rectLeft rect; mouseY = clientY e - rectTop rect
       in (mouseX - translateX q) / scale q = (mouseX - translateX p) / scale p \<and>
          (mouseY - translateY q) / scale q = (mouseY - translateY p) / scale p))
   \<and> (scale (zoomPan c) \<noteq> 0 \<and> scale (zoomPan (applyZoomToPoint props delta point c)) \<noteq> 0 \<longrightarrow>
      (let p = zoomPan c; q = zoomPan (applyZoomToPoint props delta point c)
       in (fst point - translateX q) / scale q = (fst point - translateX p) / scale p \<and>
          (snd point - translateY q) / scale q = (snd point - translateY p) / scale p))
   \<and> (touchStartRef c = Some ts \<and> length touches = 2 \<and> 0 < start_distance ts \<and>
      start_scale ts \<noteq> 0 \<and> scale (zoomPan (onTouchMove props touches rect c)) \<noteq> 0 \<longrightarrow>
      (let q = zoomPan (onTouchMove props touches rect c);
           oldMid = (fst (start_center ts) - rectLeft rect, snd (start_center ts) - rectTop rect);
           newMid = (fst (getTouchCenter touches) - rectLeft rect,
                     snd (getTouchCenter touches) - rectTop rect)
       in (fst newMid - translateX q) / scale q = (fst oldMid - start_translateX ts) / start_scale ts \<and>
          (snd newMid - translateY q) / scale q = (snd oldMid - start_translateY ts) / start_scale ts))"
proof (intro conjI impI)
  assume a: "scale (zoomPan c) \<noteq> 0 \<and> scale (zoomPan (onWheel props e rect c)) \<noteq> 0"
  then show "let p = zoomPan c; q = zoomPan (onWheel props e rect c);
           mouseX = clientX e - rectLeft rect; mouseY = clientY e - rectTop rect
       in (mouseX - translateX q) / scale q = (mouseX - translateX p) / scale p \<and>
          (mouseY - translateY q) / scale q = (mouseY - translateY p) / scale p"
    by (simp add: onWheel_def Let_def stopMomentum_def)
next
  assume a: "scale (zoomPan c) \<noteq> 0 \<and> scale (zoomPan (applyZoomToPoint props delta point c)) \<noteq> 0"
  then show "let p = zoomPan c; q = zoomPan (applyZoomToPoint props delta point c)
       in (fst point - translateX q) / scale q = (fst point - translateX p) / scale p \<and>
          (snd point - translateY q) / scale q = (snd point - translateY p) / scale p"
    by (simp add: applyZoomToPoint_def Let_def stopMomentum_def)
next
  assume a: "touchStartRef c = Some ts \<and> length touches = 2 \<and> 0 < start_distance ts \<and>
      start_scale ts \<noteq> 0 \<and> scale (zoomPan (onTouchMove props touches rect c)) \<noteq> 0"
  then show "let q = zoomPan (onTouchMove props touches rect c);
           oldMid = (fst (start_center ts) - rectLeft rect, snd (start_center ts) - rectTop rect);
           newMid = (fst (getTouchCenter touches) - rectLeft rect,
                     snd (getTouchCenter touches) - rectTop rect)
       in (fst newMid - translateX q) / scale q = (fst oldMid - start_translateX ts) / start_scale ts \<and>
          (snd newMid - translateY q) / scale q = (snd oldMid - start_translateY ts) / start_scale ts"
    by (clarsimp simp: onTouchMove_pinch Let_def)
qed

theorem anchoring_invariant_witness:
  "(let p = zoomPan (mounted defaultProps);
        q = zoomPan (onWheel defaultProps wheelIn viewport (mounted defaultProps));
        mouseX = clientX wheelIn - rectLeft viewport; mouseY = clientY wheelIn - rectTop viewport
    in (mouseX - translateX q) / scale q = (mouseX - translateX p) / scale p \<and>
       (mouseY - translateY q) / scale q = (mouseY - translateY p) / scale p)
   \<and> (let p = zoomPan (mounted defaultProps);
          q = zoomPan (applyZoomToPoint defaultProps (1 / 10) (400, 300) (mounted defaultProps))
      in (400 - translateX q) / scale q = (400 - translateX p) / scale p \<and>
         (300 - translateY q) / scale q = (300 - translateY p) / scale p)
   \<and> (let q = zoomPan (onTouchMove defaultProps [(300, 320), (500, 320)] viewport pinchStarted)
      in (400 - translateX q) / scale q = (400 - 0) / 1 \<and>
         (320 - translateY q) / scale q = (300 - 0) / 1)"
proof -
  have d: "minScale defaultProps \<le> maxScale defaultProps" "0 < minScale defaultProps"
    by (simp_all add: defaultProps_def)
  have w: "scale (zoomPan (onWheel defaultProps wheelIn viewport (mounted defaultProps))) \<noteq> 0"
    using onWheel_in_range [OF d(1), of wheelIn viewport "mounted defaultProps"] d(2) by linarith
  have b: "scale (zoomPan (applyZoomToPoint defaultProps (1 / 10) (400, 300) (mounted defaultProps))) \<noteq> 0"
    using applyZoomToPoint_in_range [OF d(1), of "1 / 10" "(400, 300)" "mounted defaultProps"] d(2)
    by linarith
  have t: "touchStartRef pinchStarted = Some \<lparr>start_touches = [(350, 300), (450, 300)],
      start_distance = 100, start_center = (400, 300), start_scale = 1, start_translateX = 0,
      start_translateY = 0\<rparr>"
    by (simp add: pinchStarted_def)
  have p: "scale (zoomPan (onTouchMove defaultProps [(300, 320), (500, 320)] viewport pinchStarted)) \<noteq> 0"
    using pinch_in_range [OF d(1) t, of "[(300, 320), (500, 320)]" viewport] d(2) by simp
  have m: "scale (zoomPan (mounted defaultProps)) \<noteq> 0"
    by (simp add: mounted_def defaultProps_def)
  let ?ts = "\<lparr>start_touches = [(350, 300), (450, 300)], start_distance = 100,
      start_center = (400, 300), start_scale = 1, start_translateX = 0,
      start_translateY = 0\<rparr>"
  note A = anchoring_invariant [where c = "mounted defaultProps" and props = defaultProps
      and e = wheelIn and rect = viewport and delta = "1 / 10" and point = "(400, 300)"
      and ts = ?ts and touches = "[(300, 320), (500, 320)]"]
  note B = anchoring_invariant [where c = pinchStarted and props = defaultProps
      and e = wheelIn and rect = viewport and delta = "1 / 10" and point = "(400, 300)"
      and ts = ?ts and touches = "[(300, 320), (500, 320)]"]
  from A w m have 1: "let p = zoomPan (mounted defaultProps);
        q = zoomPan (onWheel defaultProps wheelIn viewport (mounted defaultProps));
        mouseX = clientX wheelIn - rectLeft viewport; mouseY = clientY wheelIn - rectTop viewport
    in (mouseX - translateX q) / scale q = (mouseX - translateX p) / scale p \<and>
       (mouseY - translateY q) / scale q = (mouseY - translateY p) / scale p"
    by blast
  from A b m have 2: "let p = zoomPan (mounted defaultProps);
          q = zoomPan (applyZoomToPoint defaultProps (1 / 10) (400, 300) (mounted defaultProps))
      in (400 - translateX q) / scale q = (400 - translateX p) / scale p \<and>
         (300 - translateY q) / scale q = (300 - translateY p) / scale p"
    by simp
  from B p t have 3: "let q = zoomPan (onTouchMove defaultProps [(300, 320), (500, 320)] viewport pinchStarted)
      in (400 - translateX q) / scale q = (400 - 0) / 1 \<and>
         (320 - translateY q) / scale q = (300 - 0) / 1"
    by (simp add: Let_def viewport_def getTouchCenter_def)
  from 1 2 3 show ?thesis by blast
qed

section \<open>Fit to view\<close>

text \<open>
  Claim C3 as stated gives \<open>offsetX = 52\<close> for an 800 by 600 container and 1000 by 500
  content. \<open>centerView\<close> computes \<open>(800 - 1000 * 0.76) / 2 = 20\<close>.
\<close>

theorem centerView_offsetX_counterexample:
  "translateX (zoomPan (centerView defaultProps
      (Some \<lparr>contentWidth = 1000, contentHeight = 500, containerWidth = 800, containerHeight = 600\<rparr>)
      (mounted defaultProps))) = 20
   \<and> translateX (zoomPan (centerView defaultProps
      (Some \<lparr>contentWidth = 1000, contentHeight = 500, containerWidth = 800, containerHeight = 600\<rparr>)
      (mounted defaultProps))) \<noteq> 52"
  by (simp add: centerView_def defaultProps_def Let_def stopMomentum_def mounted_def)

text \<open>
  Claim C3, amended. For content of non-zero width and height \<open>centerView\<close> stores
  \<open>fitScale = clamp(min((containerWidth - 40) / contentWidth,
  (containerHeight - 40) / contentHeight), minScale, maxScale)\<close> and the offsets
  \<open>(containerSize - contentSize * fitScale) / 2\<close>; for the container 800 by 600 and the
  content 1000 by 500 that is scale \<open>0.76\<close>, \<open>offsetX = 20\<close> and \<open>offsetY = 110\<close>.
\<close>

theorem centerView_fit:
  assumes "contentWidth l \<noteq> 0" and "contentHeight l \<noteq> 0"
      and "minScale props \<le> maxScale props"
  shows "zoomPan (centerView props (Some l) c) =
     (let fitScale = clamp (min ((containerWidth l - 40) / contentWidth l)
                                ((containerHeight l - 40) / contentHeight l))
                           (minScale props) (maxScale props)
      in \<lparr>scale = fitScale,
          translateX = (containerWidth l - contentWidth l * fitScale) / 2,
          translateY = (containerHeight l - contentHeight l * fitScale) / 2,
          isImmediate = False\<rparr>)"
  using assms by (simp add: centerView_def Let_def clamp_min_max stopMomentum_def)

theorem centerView_fit_example:
  "zoomPan (centerView defaultProps
      (Some \<lparr>contentWidth = 1000, contentHeight = 500, containerWidth = 800, containerHeight = 600\<rparr>)
      (mounted defaultProps))
   = \<lparr>scale = 0.76, translateX = 20, translateY = 110, isImmediate = False\<rparr>"
  using centerView_fit [of "\<lparr>contentWidth = 1000, contentHeight = 500, containerWidth = 800, containerHeight = 600\<rparr>" defaultProps "mounted defaultProps"]
  by (simp add: defaultProps_def clamp_def Let_def)

section \<open>Pinch zoom\<close>

text \<open>
  Claim C7. A pinch move with a snapshot whose start distance is positive stores the
  scale \<open>clamp(startScale * newDistance / startDistance, minScale, maxScale)\<close>: a function
  of the snapshot, the touches and the bounds, not of the state the move finds. From
  distance 100 to distance 200 at start scale 1 with the bounds \<open>[0.1, 5]\<close> it is 2.
\<close>

theorem pinch_scale:
  assumes "touchStartRef c = Some ts" and "length touches = 2" and "0 < start_distance ts"
      and "minScale props \<le> maxScale props"
  shows "scale (zoomPan (onTouchMove props touches rect c)) =
         clamp (start_scale ts * (getTouchDistance touches / start_distance ts))
               (minScale props) (maxScale props)"
  using assms by (simp add: onTouchMove_pinch Let_def clamp_min_max)

theorem pinch_scale_example:
  "scale (zoomPan (onTouchMove defaultProps [(300, 300), (500, 300)] viewport pinchStarted)) = 2"
  using pinch_scale [of pinchStarted _ "[(300, 300), (500, 300)]" defaultProps viewport]
  by (simp add: pinchStarted_def getTouchDistance_horizontal defaultProps_def clamp_def)

section \<open>Button zoom round trip\<close>

lemma applyZoomToPoint_zoomPan:
  "zoomPan (applyZoomToPoint props delta point c) =
    (let newScale = min (maxScale props) (max (minScale props) (scale (zoomPan c) + delta));
         ratio = newScale / scale (zoomPan c)
     in \<lparr>scale = newScale,
         translateX = fst point - (fst point - translateX (zoomPan c)) * ratio,
         translateY = snd point - (snd point - translateY (zoomPan c)) * ratio,
         isImmediate = False\<rparr>)"
  by (simp add: applyZoomToPoint_def stopMomentum_def Let_def)

lemma applyZoomToPoint_target_targetRef:
  "targetRef (applyZoomToPoint_target props now delta point c) =
    (let newScale = min (maxScale props) (max (minScale props) (t_scale (targetRef c) + delta));
         ratio = newScale / t_scale (targetRef c)
     in \<lparr>t_scale = newScale,
         t_x = fst point - (fst point - t_x (targetRef c)) * ratio,
         t_y = snd point - (snd point - t_y (targetRef c)) * ratio\<rparr>)"
  by (simp add: applyZoomToPoint_target_def startAnimation_def syncRefs_def Let_def)

lemma anchored_round_trip:
  fixes s :: real
  assumes "s \<noteq> 0" and "s + d \<noteq> 0"
  shows "p - (p - (p - (p - t) * ((s + d) / s))) * (s / (s + d)) = t"
proof -
  have "((s + d) / s) * (s / (s + d)) = 1"
    using assms by (simp add: divide_simps)
  moreover have "p - (p - (p - (p - t) * ((s + d) / s))) * (s / (s + d)) =
      p - (p - t) * (((s + d) / s) * (s / (s + d)))"
    by (simp only: diff_diff_eq2 mult.assoc) simp
  ultimately show ?thesis by simp
qed

lemma zoomIn_unclamped:
  assumes "minScale props \<le> scale (zoomPan c) + zoomStep props"
      and "scale (zoomPan c) + zoomStep props \<le> maxScale props"
  shows "zoomPan (zoomIn props container c) =
    \<lparr>scale = scale (zoomPan c) + zoomStep props,
     translateX = fst (getContainerCenter container) -
        (fst (getContainerCenter container) - translateX (zoomPan c)) *
        ((scale (zoomPan c) + zoomStep props) / scale (zoomPan c)),
     translateY = snd (getContainerCenter container) -
        (snd (getContainerCenter container) - translateY (zoomPan c)) *
        ((scale (zoomPan c) + zoomStep props) / scale (zoomPan c)),
     isImmediate = False\<rparr>"
  unfolding zoomIn_def applyZoomToPoint_zoomPan Let_def clamp_id [OF assms] by (rule refl)

lemma zoomOut_unclamped:
  assumes "minScale props \<le> scale (zoomPan c) - zoomStep props"
      and "scale (zoomPan c) - zoomStep props \<le> maxScale props"
  shows "zoomPan (zoomOut props container c) =
    \<lparr>scale = scale (zoomPan c) - zoomStep props,
     translateX = fst (getContainerCenter container) -
        (fst (getContainerCenter container) - translateX (zoomPan c)) *
        ((scale (zoomPan c) - zoomStep props) / scale (zoomPan c)),
     translateY = snd (getContainerCenter container) -
        (snd (getContainerCenter container) - translateY (zoomPan c)) *
        ((scale (zoomPan c) - zoomStep props) / scale (zoomPan c)),
     isImmediate = False\<rparr>"
  unfolding zoomOut_def applyZoomToPoint_zoomPan Let_def add_uminus_conv_diff clamp_id [OF assms]
  by (rule refl)

lemma zoomIn_target_unclamped:
  assumes "minScale props \<le> t_scale (targetRef c) + zoomStep props"
      and "t_scale (targetRef c) + zoomStep props \<le> maxScale props"
  shows "targetRef (zoomIn_target props now container c) =
    \<lparr>t_scale = t_scale (targetRef c) + zoomStep props,
     t_x = fst (getContainerCenter container) -
        (fst (getContainerCenter container) - t_x (targetRef c)) *
        ((t_scale (targetRef c) + zoomStep props) / t_scale (targetRef c)),
     t_y = snd (getContainerCenter container) -
        (snd (getContainerCenter container) - t_y (targetRef c)) *
        ((t_scale (targetRef c) + zoomStep props) / t_scale (targetRef c))\<rparr>"
  unfolding zoomIn_target_def applyZoomToPoint_target_targetRef Let_def clamp_id [OF assms]
  by (rule refl)

lemma zoomOut_target_unclamped:
  assumes "minScale props \<le> t_scale (targetRef c) - zoomStep props"
      and "t_scale (targetRef c) - zoomStep props \<le> maxScale props"
  shows "targetRef (zoomOut_target props now container c) =
    \<lparr>t_scale = t_scale (targetRef c) - zoomStep props,
     t_x = fst (getContainerCenter container) -
        (fst (getContainerCenter container) - t_x (targetRef c)) *
        ((t_scale (targetRef c) - zoomStep props) / t_scale (targetRef c)),
     t_y = snd (getContainerCenter container) -
        (snd (getContainerCenter container) - t_y (targetRef c)) *
        ((t_scale (targetRef c) - zoomStep props) / t_scale (targetRef c))\<rparr>"
  unfolding zoomOut_target_def applyZoomToPoint_target_targetRef Let_def add_uminus_conv_diff
    clamp_id [OF assms]
  by (rule refl)

text \<open>
  Claim C10. When neither step clamps, \<open>zoomIn\<close> followed by \<open>zoomOut\<close> around the same
  container centre restores scale and offsets exactly: in the registry component on
  the state (the transition mode ends as \<open>false\<close>, as after any button), in the second
  component on the target.
\<close>

theorem zoom_round_trip:
  "(0 < scale (zoomPan c) \<and> 0 \<le> zoomStep props \<and> minScale props \<le> scale (zoomPan c) \<and>
    scale (zoomPan c) + zoomStep props \<le> maxScale props \<longrightarrow>
      zoomPan (zoomOut props container (zoomIn props container c)) =
        (zoomPan c)\<lparr>isImmediate := False\<rparr>)
   \<and> (0 < t_scale (targetRef c) \<and> 0 \<le> zoomStep props \<and> minScale props \<le> t_scale (targetRef c) \<and>
      t_scale (targetRef c) + zoomStep props \<le> maxScale props \<longrightarrow>
      targetRef (zoomOut_target props now' container (zoomIn_target props now container c)) =
        targetRef c)"
proof (intro conjI impI)
  assume a: "0 < scale (zoomPan c) \<and> 0 \<le> zoomStep props \<and> minScale props \<le> scale (zoomPan c) \<and>
    scale (zoomPan c) + zoomStep props \<le> maxScale props"
  let ?s = "scale (zoomPan c)" and ?d = "zoomStep props"
  let ?c1 = "zoomIn props container c"
  have nz: "?s \<noteq> 0" "?s + ?d \<noteq> 0" using a by auto
  have "minScale props \<le> ?s + ?d" "?s + ?d \<le> maxScale props" using a by auto
  note up = zoomIn_unclamped [OF this, of container]
  have "minScale props \<le> scale (zoomPan ?c1) - ?d" "scale (zoomPan ?c1) - ?d \<le> maxScale props"
    using a by (auto simp: up)
  note down = zoomOut_unclamped [OF this, of container]
  have "zoomPan (zoomOut props container ?c1) =
      \<lparr>scale = ?s, translateX = translateX (zoomPan c), translateY = translateY (zoomPan c),
       isImmediate = False\<rparr>"
    unfolding down unfolding up ZoomPanState.select_convs add_diff_cancel_right'
      anchored_round_trip [OF nz] by (rule refl)
  then show "zoomPan (zoomOut props container ?c1) = (zoomPan c)\<lparr>isImmediate := False\<rparr>"
    by simp
next
  assume a: "0 < t_scale (targetRef c) \<and> 0 \<le> zoomStep props \<and> minScale props \<le> t_scale (targetRef c) \<and>
      t_scale (targetRef c) + zoomStep props \<le> maxScale props"
  let ?s = "t_scale (targetRef c)" and ?d = "zoomStep props"
  let ?c1 = "zoomIn_target props now container c"
  have nz: "?s \<noteq> 0" "?s + ?d \<noteq> 0" using a by auto
  have "minScale props \<le> ?s + ?d" "?s + ?d \<le> maxScale props" using a by auto
  note up = zoomIn_target_unclamped [OF this, of now container]
  have "minScale props \<le> t_scale (targetRef ?c1) - ?d" "t_scale (targetRef ?c1) - ?d \<le> maxScale props"
    using a by (auto simp: up)
  note down = zoomOut_target_unclamped [OF this, of now' container]
  have "targetRef (zoomOut_target props now' container ?c1) =
      \<lparr>t_scale = ?s, t_x = t_x (targetRef c), t_y = t_y (targetRef c)\<rparr>"
    unfolding down unfolding up Transform.select_convs add_diff_cancel_right'
      anchored_round_trip [OF nz] by (rule refl)
  then show "targetRef (zoomOut_target props now' container ?c1) = targetRef c"
    by simp
qed

theorem zoom_round_trip_example:
  "zoomPan (zoomOut defaultProps (Some viewport) (zoomIn defaultProps (Some viewport)
      ((mounted defaultProps)\<lparr>zoomPan := \<lparr>scale = 1, translateX = 30, translateY = -20, isImmediate = True\<rparr>\<rparr>)))
     = \<lparr>scale = 1, translateX = 30, translateY = -20, isImmediate = False\<rparr>
   \<and> targetRef (zoomOut_target defaultProps 16 (Some viewport) (zoomIn_target defaultProps 0 (Some viewport)
      ((mounted defaultProps)\<lparr>targetRef := \<lparr>t_scale = 2, t_x = 30, t_y = -20\<rparr>\<rparr>)))
     = \<lparr>t_scale = 2, t_x = 30, t_y = -20\<rparr>"
  using zoom_round_trip [of "(mounted defaultProps)\<lparr>zoomPan := \<lparr>scale = 1, translateX = 30, translateY = -20, isImmediate = True\<rparr>\<rparr>" defaultProps "Some viewport"]
    zoom_round_trip [of "(mounted defaultProps)\<lparr>targetRef := \<lparr>t_scale = 2, t_x = 30, t_y = -20\<rparr>\<rparr>" defaultProps "Some viewport" 16 0]
  by (simp add: defaultProps_def)

section \<open>Wheel zoom\<close>

lemma onWheel_scale:
  "scale (zoomPan (onWheel props e rect c)) =
     min (maxScale props) (max (minScale props)
       (scale (zoomPan c) *
        exp (- (deltaY e * (if deltaMode e = 1 then 40 else if deltaMode e = 2 then 800 else 1))
             * 0.002)))"
  by (simp add: onWheel_def Let_def stopMomentum_def)

lemma exp_fifth_bounds:
  "12213 / 10000 < exp (1 / 5 :: real) \<and> exp (1 / 5 :: real) < 12215 / 10000"
proof -
  obtain t :: real where t: "\<bar>t\<bar> \<le> \<bar>1 / 5\<bar>"
    and e: "exp (1 / 5 :: real) = (\<Sum>m<4. (1 / 5) ^ m / fact m) + exp t / fact 4 * (1 / 5) ^ 4"
    using Maclaurin_exp_le [of "1 / 5" 4] by blast
  have s: "(\<Sum>m<4. (1 / 5 :: real) ^ m / fact m) = 1 + 1 / 5 + 1 / 50 + 1 / 750"
    by (simp add: eval_nat_numeral)
  have "exp t \<le> exp (1 / 5 :: real)" using t by simp
  also have "\<dots> \<le> 1 + 1 / 5 + (1 / 5)\<^sup>2" by (rule exp_bound) simp_all
  finally have u: "exp t \<le> 1.24" by (simp add: power2_eq_square)
  have l: "0 \<le> exp t / 15000" by simp
  have u': "exp t / 15000 \<le> 1 / 10000" using u by simp
  have r: "exp t / fact 4 * (1 / 5) ^ 4 = exp t / 15000"
    by (simp add: eval_nat_numeral)
  show ?thesis unfolding e s r using u' l by linarith
qed

lemma onWheel_notch:
  "scale (zoomPan (onWheel defaultProps wheelIn viewport (mounted defaultProps))) = exp (1 / 5)"
proof -
  have "1 / 10 \<le> exp (1 / 5 :: real)" "exp (1 / 5 :: real) \<le> 5"
    using exp_fifth_bounds by simp_all
  then show ?thesis
    by (simp add: onWheel_scale wheelIn_def defaultProps_def mounted_def)
qed

text \<open>
  Claim C6. In the registry component the wheel handler scales line-mode deltas by 40
  and page-mode deltas by 800 and multiplies the scale by
  \<open>exp(-normalizedDelta * 0.002)\<close> before clamping (lemma \<open>onWheel_scale\<close>); a notch of
  \<open>deltaY = -100\<close> in pixel mode from scale 1 gives \<open>exp(0.2)\<close>, between 1.2213 and 1.2215
  (lemmas \<open>onWheel_notch\<close>, \<open>exp_fifth_bounds\<close>). The canvas component's handler has the
  line-mode case only: a page-mode event with \<open>deltaY = 1\<close> is treated as one pixel and
  gives the factor \<open>exp(-0.0015)\<close>, not \<open>exp(-800 * 0.0015)\<close>.
\<close>

theorem canvas_wheel_page_mode:
  "j_scale (cv_targetRef (onWheel_canvas defaultProps wheelPage viewport (canvasMounted defaultProps)))
     = Fin (exp (- (1 * 0.0015)))
   \<and> exp (- (1 * 0.0015)) \<noteq> (exp (- (1 * 800 * 0.0015)) :: real)"
proof -
  have "1 - 0.0015 \<le> exp (- (0.0015 :: real))" by (rule exp_minus_ge)
  then have lo: "1 / 10 \<le> exp (- (3 / 2000 :: real))" by simp
  have "exp (- (3 / 2000 :: real)) \<le> 1" by simp
  then have hi: "exp (- (3 / 2000 :: real)) \<le> 5" by linarith
  show ?thesis using lo hi
    by (simp add: onWheel_canvas_def updateImmediate_def canvasMounted_def wheelPage_def
        defaultProps_def Let_def)
qed

subsection \<open>Special values in the wheel handlers\<close>

text \<open>
  Claim C8 as stated has a \<open>NaN\<close> delta rejected by the clamp. \<open>Math.max\<close> and
  \<open>Math.min\<close> answer \<open>NaN\<close> when an argument is \<open>NaN\<close>, so the handler writes \<open>NaN\<close> to the
  scale and to both offsets.
\<close>

theorem wheel_NaN_counterexample:
  "js_onWheel defaultProps wheelNaN viewport jIdentity = \<lparr>j_scale = NaN, j_x = NaN, j_y = NaN\<rparr>
   \<and> \<not> js_between (minScale defaultProps) (maxScale defaultProps)
        (j_scale (js_onWheel defaultProps wheelNaN viewport jIdentity))"
  by (simp add: js_onWheel_def wheelNaN_def jIdentity_def Let_def)

lemma js_clamp_between:
  assumes "lo \<le> hi" and "v \<noteq> NaN"
  shows "js_between lo hi (js_min (Fin hi) (js_max (Fin lo) v))"
  using assms by (cases v) (simp_all add: min_def max_def)

lemma js_between_positive: "js_between lo hi v \<Longrightarrow> 0 < lo \<Longrightarrow> v \<noteq> Fin 0"
  by (cases v) auto

lemma js_normalised_not_NaN:
  "d \<noteq> NaN \<Longrightarrow> 0 < k \<Longrightarrow> js_mul d (Fin k) \<noteq> NaN"
  by (cases d) (simp_all add: signedInf_def)

lemma js_scaleFactor:
  assumes "d \<noteq> NaN" and "0 < k"
  shows "js_exp (js_mul (js_neg d) (Fin k)) = PosInf \<or>
         (\<exists>f. 0 \<le> f \<and> js_exp (js_mul (js_neg d) (Fin k)) = Fin f)"
  using assms by (cases d) (simp_all add: signedInf_def)

lemma js_scaled:
  assumes "d \<noteq> NaN" and "0 < k" and "0 < s"
  shows "js_mul (Fin s) (js_exp (js_mul (js_neg d) (Fin k))) \<noteq> NaN"
  using js_scaleFactor [OF assms(1,2)] assms(3) by (auto simp: signedInf_def)

text \<open>
  Claim C8, amended. For every wheel event whose \<open>deltaY\<close> is not \<open>NaN\<close>, finite or
  infinite, on a finite positive scale and with \<open>minScale \<le> maxScale\<close>, the scale written
  by the wheel handler of the registry component and of the second component lies in
  \<open>[minScale, maxScale]\<close>: a product that is zero or infinite is clamped, and the result
  is neither \<open>NaN\<close> nor, for a positive \<open>minScale\<close>, zero.
\<close>

theorem wheel_clamps_non_NaN:
  assumes "j_deltaY e \<noteq> NaN" and "j_scale prev = Fin s" and "0 < s"
      and "minScale props \<le> maxScale props"
  shows "js_between (minScale props) (maxScale props) (j_scale (js_onWheel props e rect prev))
       \<and> js_between (minScale props) (maxScale props) (j_scale (js_onWheel_target props e rect prev))
       \<and> (0 < minScale props \<longrightarrow>
            j_scale (js_onWheel props e rect prev) \<noteq> Fin 0 \<and>
            j_scale (js_onWheel_target props e rect prev) \<noteq> Fin 0)"
proof -
  define d where "d = (if j_deltaMode e = 2
     then js_mul (if j_deltaMode e = 1 then js_mul (j_deltaY e) (Fin 40) else j_deltaY e) (Fin 800)
     else (if j_deltaMode e = 1 then js_mul (j_deltaY e) (Fin 40) else j_deltaY e))"
  have d: "d \<noteq> NaN"
    using assms(1) by (simp add: d_def js_normalised_not_NaN)
  have 1: "j_scale (js_onWheel props e rect prev) =
      js_min (Fin (maxScale props)) (js_max (Fin (minScale props))
        (js_mul (Fin s) (js_exp (js_mul (js_neg d) (Fin 0.002)))))"
    by (simp add: js_onWheel_def Let_def d_def assms(2))
  have 2: "j_scale (js_onWheel_target props e rect prev) =
      js_min (Fin (maxScale props)) (js_max (Fin (minScale props))
        (js_mul (Fin s) (js_exp (js_mul (js_neg d) (Fin 0.0015)))))"
    by (simp add: js_onWheel_target_def Let_def d_def assms(2))
  have b: "js_between (minScale props) (maxScale props) (j_scale (js_onWheel props e rect prev))"
    "js_between (minScale props) (maxScale props) (j_scale (js_onWheel_target props e rect prev))"
    unfolding 1 2 using js_clamp_between [OF assms(4)] js_scaled [OF d _ assms(3)] by simp_all
  then show ?thesis using js_between_positive by blast
qed

theorem wheel_clamps_infinite_delta:
  "js_between (minScale defaultProps) (maxScale defaultProps)
     (j_scale (js_onWheel defaultProps wheelFar viewport jIdentity))
   \<and> js_between (minScale defaultProps) (maxScale defaultProps)
     (j_scale (js_onWheel_target defaultProps wheelFar viewport jIdentity))
   \<and> j_scale (js_onWheel defaultProps wheelFar viewport jIdentity) = Fin (minScale defaultProps)"
proof -
  have "j_scale (js_onWheel defaultProps wheelFar viewport jIdentity) = Fin (minScale defaultProps)"
    by (simp add: js_onWheel_def wheelFar_def jIdentity_def defaultProps_def Let_def signedInf_def)
  moreover have "j_deltaY wheelFar \<noteq> NaN" "j_scale jIdentity = Fin 1"
    "minScale defaultProps \<le> maxScale defaultProps"
    by (simp_all add: wheelFar_def jIdentity_def defaultProps_def)
  ultimately show ?thesis
    using wheel_clamps_non_NaN [of wheelFar jIdentity 1 defaultProps viewport] by simp
qed

text \<open>
  The canvas component clamps in the same way where its buttons and its wheel handler
  write the target.
\<close>

lemma canvas_applyZoom_in_range:
  assumes "j_scale (cv_targetRef c) = Fin s" and "minScale props \<le> maxScale props"
  shows "js_between (minScale props) (maxScale props)
           (j_scale (cv_targetRef (applyZoom props delta (Some rect) c)))"
  using assms(1) js_clamp_between [OF assms(2), of "Fin (s + delta)"]
  by (simp add: applyZoom_def updateSmooth_def Let_def)

lemma canvas_onWheel_in_range:
  assumes "j_deltaY e \<noteq> NaN" and "j_scale (cv_currentRef c) = Fin s" and "0 < s"
      and "minScale props \<le> maxScale props"
  shows "js_between (minScale props) (maxScale props)
           (j_scale (cv_targetRef (onWheel_canvas props e rect c)))"
proof -
  define d where "d = (if j_deltaMode e = 1 then js_mul (j_deltaY e) (Fin 40) else j_deltaY e)"
  have d: "d \<noteq> NaN"
    using assms(1) by (simp add: d_def js_normalised_not_NaN)
  have "j_scale (cv_targetRef (onWheel_canvas props e rect c)) =
      js_min (Fin (maxScale props)) (js_max (Fin (minScale props))
        (js_mul (Fin s) (js_exp (js_mul (js_neg d) (Fin 0.0015)))))"
    by (simp add: onWheel_canvas_def updateImmediate_def Let_def d_def assms(2))
  then show ?thesis
    using js_clamp_between [OF assms(4)] js_scaled [OF d _ assms(3)] by simp
qed

text \<open>On finite numbers and a non-zero scale the two models of the handler agree.\<close>

lemma js_onWheel_finite:
  assumes "scale (zoomPan c) \<noteq> 0"
  shows "js_onWheel props
      \<lparr>j_clientX = clientX e, j_clientY = clientY e, j_deltaY = Fin (deltaY e),
       j_deltaMode = deltaMode e\<rparr> rect
      \<lparr>j_scale = Fin (scale (zoomPan c)), j_x = Fin (translateX (zoomPan c)),
       j_y = Fin (translateY (zoomPan c))\<rparr> =
    (let q = zoomPan (onWheel props e rect c)
     in \<lparr>j_scale = Fin (scale q), j_x = Fin (translateX q), j_y = Fin (translateY q)\<rparr>)"
  using assms by (simp add: js_onWheel_def onWheel_def Let_def stopMomentum_def)

section \<open>Degenerate geometry\<close>

subsection \<open>The registry component\<close>

text \<open>
  \<open>centerView\<close> of the registry component tests the content only: with a 0 by 0
  container around 100 by 100 content it writes the scale \<open>minScale\<close> and negative
  offsets.
\<close>

lemma centerView_hidden_container:
  "zoomPan (centerView defaultProps (Some hiddenLayout) (mounted defaultProps)) =
     \<lparr>scale = 0.1, translateX = - 5, translateY = - 5, isImmediate = False\<rparr>
   \<and> centerView defaultProps (Some hiddenLayout) (mounted defaultProps) \<noteq> mounted defaultProps"
proof -
  have 1: "zoomPan (centerView defaultProps (Some hiddenLayout) (mounted defaultProps)) =
     \<lparr>scale = 0.1, translateX = - 5, translateY = - 5, isImmediate = False\<rparr>"
    by (simp add: centerView_def hiddenLayout_def defaultProps_def Let_def stopMomentum_def)
  have "zoomPan (mounted defaultProps) \<noteq> \<lparr>scale = 0.1, translateX = - 5, translateY = - 5, isImmediate = False\<rparr>"
    by (simp add: mounted_def)
  with 1 show ?thesis by metis
qed

text \<open>
  It is a no-op when the layout cannot be measured or the content measures zero wide
  or high, so it divides by a non-zero width and height only, and then the scale it
  writes lies within the bounds. A container that measures zero is not detected:
  around content of positive size the scale written is \<open>minScale\<close>, with the offsets
  that centre the content at it.
\<close>

lemma centerView_zero_content:
  "(contentWidth l = 0 \<or> contentHeight l = 0 \<longrightarrow> centerView props (Some l) c = c)
   \<and> centerView props None c = c
   \<and> (contentWidth l \<noteq> 0 \<and> contentHeight l \<noteq> 0 \<and> minScale props \<le> maxScale props \<longrightarrow>
        minScale props \<le> scale (zoomPan (centerView props (Some l) c)) \<and>
        scale (zoomPan (centerView props (Some l) c)) \<le> maxScale props)
   \<and> (0 < contentWidth l \<and> 0 < contentHeight l \<and>
      (containerWidth l = 0 \<or> containerHeight l = 0) \<and>
      0 \<le> minScale props \<and> minScale props \<le> maxScale props \<longrightarrow>
        zoomPan (centerView props (Some l) c) =
          \<lparr>scale = minScale props,
           translateX = (containerWidth l - contentWidth l * minScale props) / 2,
           translateY = (containerHeight l - contentHeight l * minScale props) / 2,
           isImmediate = False\<rparr>)"
proof (intro conjI impI)
  assume a: "0 < contentWidth l \<and> 0 < contentHeight l \<and>
      (containerWidth l = 0 \<or> containerHeight l = 0) \<and>
      0 \<le> minScale props \<and> minScale props \<le> maxScale props"
  then have "(containerWidth l - 40) / contentWidth l < 0 \<or> (containerHeight l - 40) / contentHeight l < 0"
    by (auto simp: divide_less_0_iff)
  then have "min ((containerWidth l - 40) / contentWidth l) ((containerHeight l - 40) / contentHeight l) < 0"
    by (auto simp: min_def)
  then have "min (maxScale props) (max (minScale props)
      (min ((containerWidth l - 40) / contentWidth l) ((containerHeight l - 40) / contentHeight l)))
      = minScale props"
    using a by (simp add: min_def max_def)
  then show "zoomPan (centerView props (Some l) c) =
          \<lparr>scale = minScale props,
           translateX = (containerWidth l - contentWidth l * minScale props) / 2,
           translateY = (containerHeight l - contentHeight l * minScale props) / 2,
           isImmediate = False\<rparr>"
    using a by (simp add: centerView_def Let_def stopMomentum_def)
next
  assume "contentWidth l = 0 \<or> contentHeight l = 0"
  then show "centerView props (Some l) c = c" by (auto simp: centerView_def)
next
  show "centerView props None c = c" by (simp add: centerView_def)
next
  assume "contentWidth l \<noteq> 0 \<and> contentHeight l \<noteq> 0 \<and> minScale props \<le> maxScale props"
  then show "minScale props \<le> scale (zoomPan (centerView props (Some l) c))"
    and "scale (zoomPan (centerView props (Some l) c)) \<le> maxScale props"
    using centerView_in_range [of props l c] by simp_all
qed

lemma centerView_zero_content_example:
  "centerView defaultProps (Some emptyLayout) (mounted defaultProps) = mounted defaultProps
   \<and> zoomPan (centerView defaultProps (Some hiddenLayout) (mounted defaultProps)) =
     \<lparr>scale = minScale defaultProps,
      translateX = (0 - 100 * minScale defaultProps) / 2,
      translateY = (0 - 100 * minScale defaultProps) / 2, isImmediate = False\<rparr>"
  using centerView_zero_content [of emptyLayout defaultProps "mounted defaultProps"]
    centerView_zero_content [of hiddenLayout defaultProps "mounted defaultProps"]
  by (simp add: emptyLayout_def hiddenLayout_def defaultProps_def)

subsection \<open>The canvas component\<close>

text \<open>
  Claim C9. The claim makes \<open>centerView\<close> a no-op, the transform unchanged and no
  \<open>NaN\<close> or infinity produced, when the container or the content measures zero. The
  canvas component's \<open>centerView\<close> returns early only when the canvas or the image is
  missing; it has no test on their sizes, though the same component tests the canvas
  size before it fits the image on load and on resize. With a canvas that measures
  0 by 0 around a 100 by 100 image it replaces the target by the scale 0 at the
  origin and schedules a frame; with an image that measures 0 by 0 in an 800 by 600
  canvas it divides by zero and writes an infinite scale with \<open>NaN\<close> offsets; with
  both 0 by 0 it writes \<open>NaN\<close> throughout.
\<close>

theorem canvas_centerView_degenerate:
  "cv_targetRef (centerView_canvas (Some (0, 0)) (Some (100, 100)) (canvasMounted defaultProps)) =
     \<lparr>j_scale = Fin 0, j_x = Fin 0, j_y = Fin 0\<rparr>
   \<and> cv_rafRef (centerView_canvas (Some (0, 0)) (Some (100, 100)) (canvasMounted defaultProps))
   \<and> centerView_canvas (Some (0, 0)) (Some (100, 100)) (canvasMounted defaultProps) \<noteq>
       canvasMounted defaultProps
   \<and> cv_targetRef (centerView_canvas (Some (800, 600)) (Some (0, 0)) (canvasMounted defaultProps)) =
     \<lparr>j_scale = PosInf, j_x = NaN, j_y = NaN\<rparr>
   \<and> cv_targetRef (centerView_canvas (Some (0, 0)) (Some (0, 0)) (canvasMounted defaultProps)) =
     \<lparr>j_scale = NaN, j_x = NaN, j_y = NaN\<rparr>"
proof -
  have 1: "cv_targetRef (centerView_canvas (Some (0, 0)) (Some (100, 100)) (canvasMounted defaultProps)) =
     \<lparr>j_scale = Fin 0, j_x = Fin 0, j_y = Fin 0\<rparr>"
    by (simp add: centerView_canvas_def getCenterTransform_def updateSmooth_def Let_def)
  have 2: "cv_rafRef (centerView_canvas (Some (0, 0)) (Some (100, 100)) (canvasMounted defaultProps))"
    by (simp add: centerView_canvas_def getCenterTransform_def updateSmooth_def Let_def)
  have "\<not> cv_rafRef (canvasMounted defaultProps)" by (simp add: canvasMounted_def)
  with 2 have 3: "centerView_canvas (Some (0, 0)) (Some (100, 100)) (canvasMounted defaultProps) \<noteq>
       canvasMounted defaultProps"
    by metis
  have 4: "cv_targetRef (centerView_canvas (Some (800, 600)) (Some (0, 0)) (canvasMounted defaultProps)) =
     \<lparr>j_scale = PosInf, j_x = NaN, j_y = NaN\<rparr>"
    by (simp add: centerView_canvas_def getCenterTransform_def updateSmooth_def Let_def signedInf_def)
  have 5: "cv_targetRef (centerView_canvas (Some (0, 0)) (Some (0, 0)) (canvasMounted defaultProps)) =
     \<lparr>j_scale = NaN, j_x = NaN, j_y = NaN\<rparr>"
    by (simp add: centerView_canvas_def getCenterTransform_def updateSmooth_def Let_def signedInf_def)
  from 1 2 3 4 5 show ?thesis by blast
qed

section \<open>The physics loop\<close>

subsection \<open>The loop scaled by frame time stops, snaps and commits\<close>

lemma applyMomentum_flags [simp]:
  "isDragging (applyMomentum ts c) = isDragging c"
  "isPinching (applyMomentum ts c) = isPinching c"
  "currentRef (applyMomentum ts c) = currentRef c"
  "zoomPan (applyMomentum ts c) = zoomPan c"
  "lastFrameTimeRef (applyMomentum ts c) = lastFrameTimeRef c"
  by (simp_all add: applyMomentum_def Let_def)

lemma interpolate_fields [simp]:
  "isDragging (interpolate ts c) = isDragging c"
  "isPinching (interpolate ts c) = isPinching c"
  "targetRef (interpolate ts c) = targetRef c"
  "velocityRef (interpolate ts c) = velocityRef c"
  "zoomPan (interpolate ts c) = zoomPan c"
  "lastFrameTimeRef (interpolate ts c) = lastFrameTimeRef c"
  by (simp_all add: interpolate_def Let_def)

lemma step_flags [simp]:
  "isDragging (step t c) = isDragging c" "isPinching (step t c) = isPinching c"
  "lastFrameTimeRef (step t c) = t"
  by (simp_all add: step_def Let_def commitToState_def)

lemma step_idle [simp]: "idle (step t c) = idle c"
  by (simp add: idle_def)

lemma step_settles: "\<not> rafRef (step t c) \<Longrightarrow> settled (step t c)"
  by (simp add: step_def Let_def settled_def commitToState_def split: if_splits)

text \<open>
  What holds when the callback does not reschedule: no gesture is active, the frame
  was no stall, none of the distances it measured and neither component of the
  velocity exceeds its tolerance, the displayed transform equals the target and the
  state equals the displayed transform.
\<close>

lemma step_stops_only_when:
  assumes "\<not> rafRef (step t c)"
  shows "\<not> isDragging c \<and> \<not> isPinching c \<and> t - lastFrameTimeRef c \<le> 100 \<and>
     \<bar>t_x (targetRef (step t c)) - t_x (currentRef c)\<bar> \<le> 0.1 \<and>
     \<bar>t_y (targetRef (step t c)) - t_y (currentRef c)\<bar> \<le> 0.1 \<and>
     \<bar>t_scale (targetRef (step t c)) - t_scale (currentRef c)\<bar> \<le> 0.0001 \<and>
     \<bar>fst (velocityRef (step t c))\<bar> \<le> 0.1 \<and> \<bar>snd (velocityRef (step t c))\<bar> \<le> 0.1 \<and>
     currentRef (step t c) = targetRef (step t c) \<and>
     zoomPan (step t c) = \<lparr>scale = t_scale (currentRef (step t c)),
        translateX = t_x (currentRef (step t c)), translateY = t_y (currentRef (step t c)),
        isImmediate = isImmediate (zoomPan c)\<rparr>"
  using assms
  by (simp add: step_def Let_def commitToState_def isStillMoving_def not_less split: if_splits)

lemma frames_stopped: "\<not> rafRef c \<Longrightarrow> frames n dt c = c"
  by (cases n) simp_all

lemma frames_add: "frames (m + n) dt c = frames n dt (frames m dt c)"
proof (induction m arbitrary: c)
  case 0 show ?case by simp
next
  case (Suc m)
  show ?case
  proof (cases "rafRef c")
    case True then show ?thesis using Suc.IH by simp
  next
    case False then show ?thesis by (simp add: frames_stopped)
  qed
qed

lemma settled_frames: "settled c \<Longrightarrow> settled (frames n dt c)"
  by (simp add: frames_stopped settled_def)

text \<open>One frame with no gesture and no velocity.\<close>

lemma applyMomentum_rest:
  "idle c \<Longrightarrow> velocityRef c = (0, 0) \<Longrightarrow> applyMomentum ts c = c"
  by (simp add: applyMomentum_def idle_def Let_def)

lemma isStillMoving_rest:
  "velocityRef c = (0, 0) \<Longrightarrow> isStillMoving c \<longleftrightarrow>
     (\<bar>t_x (targetRef c) - t_x (currentRef c)\<bar> > 0.1 \<or>
      \<bar>t_y (targetRef c) - t_y (currentRef c)\<bar> > 0.1 \<or>
      \<bar>t_scale (targetRef c) - t_scale (currentRef c)\<bar> > 0.0001)"
  by (simp add: isStillMoving_def Let_def)

lemma isStillMoving_lastFrameTimeRef [simp]:
  "isStillMoving (c\<lparr>lastFrameTimeRef := t\<rparr>) = isStillMoving c"
  by (simp add: isStillMoving_def)

lemma step_rest:
  assumes "idle c" and "velocityRef c = (0, 0)" and "dt \<le> 100"
  shows "step (lastFrameTimeRef c + dt) c =
    (if isStillMoving c
     then (interpolate (dt / 16.667) (c\<lparr>lastFrameTimeRef := lastFrameTimeRef c + dt\<rparr>))\<lparr>rafRef := True\<rparr>
     else commitToState (c\<lparr>lastFrameTimeRef := lastFrameTimeRef c + dt,
                            currentRef := targetRef c, rafRef := False\<rparr>))"
proof -
  let ?c = "c\<lparr>lastFrameTimeRef := lastFrameTimeRef c + dt\<rparr>"
  have "idle ?c" "velocityRef ?c = (0, 0)" using assms by (simp_all add: idle_def)
  then have m: "applyMomentum ts ?c = ?c" for ts by (rule applyMomentum_rest)
  show ?thesis
    unfolding step_def Let_def using assms(1,3)
    by (simp add: m idle_def interpolate_def Let_def)
qed

lemma rest_frame:
  assumes "idle c" and "velocityRef c = (0, 0)" and "dt \<le> 100"
  defines "c' \<equiv> step (lastFrameTimeRef c + dt) c"
  defines "q \<equiv> (1 - 0.12) powr (dt / 16.667)"
  shows "velocityRef c' = (0, 0)" and "targetRef c' = targetRef c"
    and "rafRef c' \<longleftrightarrow> (\<bar>t_x (targetRef c) - t_x (currentRef c)\<bar> > 0.1 \<or>
           \<bar>t_y (targetRef c) - t_y (currentRef c)\<bar> > 0.1 \<or>
           \<bar>t_scale (targetRef c) - t_scale (currentRef c)\<bar> > 0.0001)"
    and "rafRef c' \<Longrightarrow> t_x (targetRef c') - t_x (currentRef c') = (t_x (targetRef c) - t_x (currentRef c)) * q"
    and "rafRef c' \<Longrightarrow> t_y (targetRef c') - t_y (currentRef c') = (t_y (targetRef c) - t_y (currentRef c)) * q"
    and "rafRef c' \<Longrightarrow> t_scale (targetRef c') - t_scale (currentRef c') =
           (t_scale (targetRef c) - t_scale (currentRef c)) * q"
proof -
  note s = step_rest [OF assms(1-3)]
  show "velocityRef c' = (0, 0)" "targetRef c' = targetRef c"
    unfolding c'_def s using assms(2) by (simp_all add: commitToState_def)
  show r: "rafRef c' \<longleftrightarrow> (\<bar>t_x (targetRef c) - t_x (currentRef c)\<bar> > 0.1 \<or>
           \<bar>t_y (targetRef c) - t_y (currentRef c)\<bar> > 0.1 \<or>
           \<bar>t_scale (targetRef c) - t_scale (currentRef c)\<bar> > 0.0001)"
    unfolding c'_def s isStillMoving_rest [OF assms(2)] by (simp add: commitToState_def)
  have i: "isStillMoving c" if "rafRef c'"
    using that r isStillMoving_rest [OF assms(2)] by simp
  show "t_x (targetRef c') - t_x (currentRef c') = (t_x (targetRef c) - t_x (currentRef c)) * q"
    if "rafRef c'"
    unfolding c'_def s q_def using i [OF that] by (simp add: interpolate_def Let_def algebra_simps)
  show "t_y (targetRef c') - t_y (currentRef c') = (t_y (targetRef c) - t_y (currentRef c)) * q"
    if "rafRef c'"
    unfolding c'_def s q_def using i [OF that] by (simp add: interpolate_def Let_def algebra_simps)
  show "t_scale (targetRef c') - t_scale (currentRef c') =
           (t_scale (targetRef c) - t_scale (currentRef c)) * q"
    if "rafRef c'"
    unfolding c'_def s q_def using i [OF that] by (simp add: interpolate_def Let_def algebra_simps)
qed

lemma at_rest_converges:
  assumes dt: "0 < dt" "dt \<le> 100"
  defines "q \<equiv> (1 - 0.12) powr (dt / 16.667)"
  shows "rafRef c \<Longrightarrow> idle c \<Longrightarrow> velocityRef c = (0, 0) \<Longrightarrow>
     \<bar>t_x (targetRef c) - t_x (currentRef c)\<bar> * q ^ N \<le> 0.1 \<Longrightarrow>
     \<bar>t_y (targetRef c) - t_y (currentRef c)\<bar> * q ^ N \<le> 0.1 \<Longrightarrow>
     \<bar>t_scale (targetRef c) - t_scale (currentRef c)\<bar> * q ^ N \<le> 0.0001 \<Longrightarrow>
     settled (frames (Suc N) dt c)"
proof (induction N arbitrary: c)
  case 0
  let ?c' = "step (lastFrameTimeRef c + dt) c"
  have "\<not> rafRef ?c'"
    using rest_frame(3) [OF "0.prems"(2,3) dt(2)] "0.prems"(4-6) by simp
  then show ?case using "0.prems"(1) by (simp add: step_settles)
next
  case (Suc N)
  let ?c' = "step (lastFrameTimeRef c + dt) c"
  have q: "0 \<le> q" by (simp add: q_def)
  note r = rest_frame [OF Suc.prems(2,3) dt(2), folded q_def]
  show ?case
  proof (cases "rafRef ?c'")
    case False
    then have "settled ?c'" by (rule step_settles)
    then have "settled (frames (Suc N) dt ?c')" by (rule settled_frames)
    then show ?thesis using Suc.prems(1) by simp
  next
    case True
    have "settled (frames (Suc N) dt ?c')"
    proof (rule Suc.IH [OF True])
      show "idle ?c'" using Suc.prems(2) by simp
      show "velocityRef ?c' = (0, 0)" by (rule r(1))
      show "\<bar>t_x (targetRef ?c') - t_x (currentRef ?c')\<bar> * q ^ N \<le> 0.1"
        using Suc.prems(4) q by (simp add: r(4) [OF True] abs_mult mult.assoc)
      show "\<bar>t_y (targetRef ?c') - t_y (currentRef ?c')\<bar> * q ^ N \<le> 0.1"
        using Suc.prems(5) q by (simp add: r(5) [OF True] abs_mult mult.assoc)
      show "\<bar>t_scale (targetRef ?c') - t_scale (currentRef ?c')\<bar> * q ^ N \<le> 0.0001"
        using Suc.prems(6) q by (simp add: r(6) [OF True] abs_mult mult.assoc)
    qed
    then show ?thesis using Suc.prems(1) by simp
  qed
qed

lemma rest_target:
  assumes "idle c" and "velocityRef c = (0, 0)"
  shows "targetRef (frames n 16.667 c) = targetRef c"
  using assms
proof (induction n arbitrary: c)
  case 0 then show ?case by simp
next
  case (Suc n)
  show ?case
  proof (cases "rafRef c")
    case False then show ?thesis by (simp add: frames_stopped)
  next
    case True
    let ?c' = "step (lastFrameTimeRef c + 16.667) c"
    have "velocityRef ?c' = (0, 0)" "targetRef ?c' = targetRef c" "idle ?c'"
      using rest_frame(1,2) [OF Suc.prems, of "16.667"] Suc.prems(1) by simp_all
    then show ?thesis using Suc.IH [of ?c'] True by simp
  qed
qed

text \<open>
  The effect on \<open>[zoomPan]\<close> that follows the commit of a stopping frame changes
  nothing: target, displayed transform and state already agree.
\<close>

lemma step_commit_effect: "\<not> rafRef (step t c) \<Longrightarrow> syncRefs (step t c) = step t c"
  by (simp add: step_def Let_def syncRefs_def commitToState_def split: if_splits)

lemma geometric_small:
  fixes q a tol :: real
  assumes "0 \<le> q" "q < 1" "0 < tol"
  shows "\<exists>n. \<forall>N\<ge>n. \<bar>a\<bar> * q ^ N \<le> tol"
proof -
  have "0 < tol / (\<bar>a\<bar> + 1)" using assms(3) by simp
  then obtain n where n: "q ^ n < tol / (\<bar>a\<bar> + 1)"
    using real_arch_pow_inv [OF _ assms(2)] by blast
  have "\<bar>a\<bar> * q ^ N \<le> tol" if "n \<le> N" for N
  proof -
    have "q ^ N \<le> q ^ n" using that assms(1,2) by (simp add: power_decreasing)
    then have "q ^ N < tol / (\<bar>a\<bar> + 1)" using n by linarith
    then have "q ^ N * (\<bar>a\<bar> + 1) < tol" by (simp add: pos_less_divide_eq)
    moreover have "\<bar>a\<bar> * q ^ N \<le> q ^ N * (\<bar>a\<bar> + 1)"
      using assms(1) by (simp add: algebra_simps)
    ultimately show ?thesis by linarith
  qed
  then show ?thesis by blast
qed

lemma step_velocity:
  assumes "idle c" and "dt \<le> 100"
  shows "velocityRef (step (lastFrameTimeRef c + dt) c) =
     (if \<bar>fst (velocityRef c)\<bar> > 0.05 \<or> \<bar>snd (velocityRef c)\<bar> > 0.05
      then (fst (velocityRef c) * 0.95 powr (dt / 16.667),
            snd (velocityRef c) * 0.95 powr (dt / 16.667))
      else (0, 0))"
  using assms
  by (simp add: step_def Let_def idle_def applyMomentum_def commitToState_def)

lemma coasting_ends:
  assumes dt: "0 < dt" "dt \<le> 100"
  defines "fr \<equiv> 0.95 powr (dt / 16.667)"
  shows "rafRef c \<Longrightarrow> idle c \<Longrightarrow>
     \<bar>fst (velocityRef c)\<bar> * fr ^ K \<le> 0.05 \<Longrightarrow> \<bar>snd (velocityRef c)\<bar> * fr ^ K \<le> 0.05 \<Longrightarrow>
     \<exists>k. settled (frames k dt c) \<or>
         (rafRef (frames k dt c) \<and> idle (frames k dt c) \<and> velocityRef (frames k dt c) = (0, 0))"
proof (induction K arbitrary: c)
  case 0
  let ?c' = "step (lastFrameTimeRef c + dt) c"
  have v: "velocityRef ?c' = (0, 0)"
    using "0.prems"(3,4) by (simp add: step_velocity [OF "0.prems"(2) dt(2)])
  have f: "frames 1 dt c = ?c'" using "0.prems"(1) by simp
  have "settled ?c' \<or> (rafRef ?c' \<and> idle ?c' \<and> velocityRef ?c' = (0, 0))"
    using v "0.prems"(2) step_settles [of "lastFrameTimeRef c + dt" c] by auto
  then show ?case unfolding f [symmetric] by blast
next
  case (Suc K)
  let ?c' = "step (lastFrameTimeRef c + dt) c"
  have fr: "0 \<le> fr" by (simp add: fr_def)
  have f: "frames (Suc k) dt c = frames k dt ?c'" for k using Suc.prems(1) by simp
  show ?case
  proof (cases "rafRef ?c'")
    case False
    then have "settled (frames 1 dt c)" using step_settles Suc.prems(1) by simp
    then show ?thesis by blast
  next
    case True
    have i: "idle ?c'" using Suc.prems(2) by simp
    have "\<bar>fst (velocityRef ?c')\<bar> * fr ^ K \<le> 0.05 \<and> \<bar>snd (velocityRef ?c')\<bar> * fr ^ K \<le> 0.05"
    proof (cases "\<bar>fst (velocityRef c)\<bar> > 0.05 \<or> \<bar>snd (velocityRef c)\<bar> > 0.05")
      case True
      then have "velocityRef ?c' = (fst (velocityRef c) * fr, snd (velocityRef c) * fr)"
        unfolding fr_def step_velocity [OF Suc.prems(2) dt(2)] by simp
      then show ?thesis using Suc.prems(3,4) fr by (simp add: abs_mult mult.assoc)
    next
      case False
      then have "velocityRef ?c' = (0, 0)"
        unfolding step_velocity [OF Suc.prems(2) dt(2)] by simp
      then show ?thesis by simp
    qed
    then obtain k where "settled (frames k dt ?c') \<or>
         (rafRef (frames k dt ?c') \<and> idle (frames k dt ?c') \<and> velocityRef (frames k dt ?c') = (0, 0))"
      using Suc.IH [OF True i] by blast
    then show ?thesis unfolding f [symmetric] by blast
  qed
qed

lemma loop_converges:
  assumes dt: "0 < dt" "dt \<le> 100" and c: "rafRef c" "idle c"
  shows "\<exists>n. settled (frames n dt c)"
proof -
  define fr :: real where "fr = 0.95 powr (dt / 16.667)"
  define q :: real where "q = (1 - 0.12) powr (dt / 16.667)"
  have fr: "0 \<le> fr" "fr < 1" using dt(1) by (simp_all add: fr_def powr01_less_one)
  have q: "0 \<le> q" "q < 1" using dt(1) by (simp_all add: q_def powr01_less_one)
  obtain K1 where K1: "\<forall>N\<ge>K1. \<bar>fst (velocityRef c)\<bar> * fr ^ N \<le> 0.05"
    using geometric_small [OF fr, of "0.05"] by auto
  obtain K2 where K2: "\<forall>N\<ge>K2. \<bar>snd (velocityRef c)\<bar> * fr ^ N \<le> 0.05"
    using geometric_small [OF fr, of "0.05"] by auto
  have "\<bar>fst (velocityRef c)\<bar> * fr ^ max K1 K2 \<le> 0.05" "\<bar>snd (velocityRef c)\<bar> * fr ^ max K1 K2 \<le> 0.05"
    using K1 K2 by simp_all
  then obtain k where k: "settled (frames k dt c) \<or>
         (rafRef (frames k dt c) \<and> idle (frames k dt c) \<and> velocityRef (frames k dt c) = (0, 0))"
    using coasting_ends [OF dt c, folded fr_def] by blast
  show ?thesis
  proof (cases "settled (frames k dt c)")
    case True then show ?thesis by blast
  next
    case False
    let ?c = "frames k dt c"
    from False k have r: "rafRef ?c" "idle ?c" "velocityRef ?c = (0, 0)" by auto
    obtain N1 where N1: "\<forall>N\<ge>N1. \<bar>t_x (targetRef ?c) - t_x (currentRef ?c)\<bar> * q ^ N \<le> 0.1"
      using geometric_small [OF q, of "0.1"] by auto
    obtain N2 where N2: "\<forall>N\<ge>N2. \<bar>t_y (targetRef ?c) - t_y (currentRef ?c)\<bar> * q ^ N \<le> 0.1"
      using geometric_small [OF q, of "0.1"] by auto
    obtain N3 where N3: "\<forall>N\<ge>N3. \<bar>t_scale (targetRef ?c) - t_scale (currentRef ?c)\<bar> * q ^ N \<le> 0.0001"
      using geometric_small [OF q, of "0.0001"] by auto
    let ?N = "max N1 (max N2 N3)"
    have "settled (frames (Suc ?N) dt ?c)"
      using at_rest_converges [OF dt r, folded q_def, of ?N] N1 N2 N3 by simp
    then have "settled (frames (k + Suc ?N) dt c)" by (simp only: frames_add)
    then show ?thesis by blast
  qed
qed

lemma zoomIn_target_starts:
  "rafRef (zoomIn_target props now container c)"
  "idle (zoomIn_target props now container c) = idle c"
  by (simp_all add: zoomIn_target_def applyZoomToPoint_target_def startAnimation_def syncRefs_def
      Let_def idle_def)

lemma button_converges:
  assumes "0 < dt" "dt \<le> 100" "idle c"
  shows "\<exists>n. settled (frames n dt (zoomIn_target props now container c))"
  using loop_converges [OF assms(1,2) zoomIn_target_starts(1)] assms(3)
  by (simp add: zoomIn_target_starts(2))

lemma default_zoomIn_settles:
  "settled (frames 56 16.667 (zoomIn_target defaultProps 0 (Some viewport) (mounted defaultProps)))"
proof -
  let ?c = "zoomIn_target defaultProps 0 (Some viewport) (mounted defaultProps)"
  have c: "rafRef ?c" "idle ?c" "velocityRef ?c = (0, 0)"
    "targetRef ?c = \<lparr>t_scale = 11 / 10, t_x = - 40, t_y = - 30\<rparr>"
    "currentRef ?c = \<lparr>t_scale = 1, t_x = 0, t_y = 0\<rparr>"
    by (simp_all add: zoomIn_target_def applyZoomToPoint_target_def startAnimation_def syncRefs_def
        Let_def idle_def mounted_def defaultProps_def getContainerCenter_def viewport_def)
  have q: "(1 - 0.12) powr (16.667 / 16.667) = (22 / 25 :: real)" by simp
  have n: "(56 :: nat) = Suc 55" by simp
  have "settled (frames (Suc 55) 16.667 ?c)"
    by (rule at_rest_converges [OF _ _ c(1-3)]) (simp_all add: q c(4,5) power_divide)
  then show ?thesis by (simp only: n)
qed

subsection \<open>The loop with fixed constants stops short\<close>

lemma applyMomentum_fixed_rest:
  "\<not> isDragging c \<Longrightarrow> \<not> isPinching c \<Longrightarrow> velocityRef c = (0, 0) \<Longrightarrow> applyMomentum_fixed c = c"
  by (simp add: applyMomentum_fixed_def Let_def)

lemma interpolate_fixed_fields [simp]:
  "targetRef (interpolate_fixed c) = targetRef c"
  "velocityRef (interpolate_fixed c) = velocityRef c"
  "zoomPan (interpolate_fixed c) = zoomPan c"
  "t_x (currentRef (interpolate_fixed c)) = t_x (currentRef c) + (t_x (targetRef c) - t_x (currentRef c)) * 0.1"
  "t_y (currentRef (interpolate_fixed c)) = t_y (currentRef c) + (t_y (targetRef c) - t_y (currentRef c)) * 0.1"
  "t_scale (currentRef (interpolate_fixed c)) =
     t_scale (currentRef c) + (t_scale (targetRef c) - t_scale (currentRef c)) * 0.06"
  by (simp_all add: interpolate_fixed_def Let_def)

lemma applyMomentum_fixed_fields [simp]:
  "currentRef (applyMomentum_fixed c) = currentRef c"
  "zoomPan (applyMomentum_fixed c) = zoomPan c"
  by (simp_all add: applyMomentum_fixed_def Let_def)

lemma syncRefs_fixed_commit:
  "\<not> isImmediate (zoomPan c) \<Longrightarrow>
     syncRefs_fixed (commitToState c) = (commitToState c)\<lparr>targetRef := currentRef c\<rparr>"
  by (simp add: syncRefs_fixed_def commitToState_def Let_def)

lemma step_fixed_stop:
  assumes "\<not> rafRef (step_fixed c)"
  shows "\<not> isImmediate (zoomPan c)"
    and "step_fixed c =
      (commitToState ((interpolate_fixed (applyMomentum_fixed c))\<lparr>rafRef := False\<rparr>))
        \<lparr>targetRef := currentRef (interpolate_fixed (applyMomentum_fixed c))\<rparr>"
proof -
  show i: "\<not> isImmediate (zoomPan c)"
    using assms
    by (auto simp add: step_fixed_def Let_def syncRefs_fixed_def startAnimation_fixed_def
        commitToState_def split: if_splits)
  have "\<not> isImmediate (zoomPan ((interpolate_fixed (applyMomentum_fixed c))\<lparr>rafRef := False\<rparr>))"
    using i by simp
  note e = syncRefs_fixed_commit [OF this]
  show "step_fixed c =
      (commitToState ((interpolate_fixed (applyMomentum_fixed c))\<lparr>rafRef := False\<rparr>))
        \<lparr>targetRef := currentRef (interpolate_fixed (applyMomentum_fixed c))\<rparr>"
    using assms unfolding step_fixed_def Let_def e by (simp split: if_splits)
qed

text \<open>
  What the callback leaves when it does not reschedule. The displayed transform is
  where the interpolation put it, a tenth of the way (six hundredths for the scale)
  from where it was to the target the frame worked with; the state is a copy of it,
  and so, after the effect, is the target. Nothing assigns the frame's target to the
  displayed transform.
\<close>

lemma step_fixed_never_snaps:
  assumes "\<not> rafRef (step_fixed c)"
  shows "t_x (targetRef (applyMomentum_fixed c)) - t_x (currentRef (step_fixed c)) =
           (t_x (targetRef (applyMomentum_fixed c)) - t_x (currentRef c)) * 0.9
       \<and> t_y (targetRef (applyMomentum_fixed c)) - t_y (currentRef (step_fixed c)) =
           (t_y (targetRef (applyMomentum_fixed c)) - t_y (currentRef c)) * 0.9
       \<and> t_scale (targetRef (applyMomentum_fixed c)) - t_scale (currentRef (step_fixed c)) =
           (t_scale (targetRef (applyMomentum_fixed c)) - t_scale (currentRef c)) * 0.94
       \<and> targetRef (step_fixed c) = currentRef (step_fixed c)
       \<and> zoomPan (step_fixed c) = \<lparr>scale = t_scale (currentRef (step_fixed c)),
            translateX = t_x (currentRef (step_fixed c)), translateY = t_y (currentRef (step_fixed c)),
            isImmediate = False\<rparr>"
  unfolding step_fixed_stop(2) [OF assms] using step_fixed_stop(1) [OF assms]
  by (simp add: commitToState_def algebra_simps diff_divide_distrib)

lemma frames_fixed_stopped: "\<not> rafRef c \<Longrightarrow> frames_fixed n c = c"
  by (cases n) simp_all

lemma frames_fixed_add: "frames_fixed (m + n) c = frames_fixed n (frames_fixed m c)"
proof (induction m arbitrary: c)
  case 0 show ?case by simp
next
  case (Suc m)
  show ?case
  proof (cases "rafRef c")
    case True then show ?thesis using Suc.IH by simp
  next
    case False then show ?thesis by (simp add: frames_fixed_stopped)
  qed
qed

lemma frames_fixed_Suc_end:
  "frames_fixed (Suc n) c =
     (let c' = frames_fixed n c in if rafRef c' then step_fixed c' else c')"
proof -
  have "frames_fixed (n + 1) c = frames_fixed 1 (frames_fixed n c)"
    by (rule frames_fixed_add)
  then show ?thesis by (simp add: Let_def)
qed

lemma nudge_step:
  fixes p :: real
  defines "c \<equiv> nudged\<lparr>currentRef := \<lparr>t_scale = 1, t_x = 1 - p, t_y = 0\<rparr>\<rparr>"
  shows "step_fixed c =
    (if 1 / 10 < \<bar>p\<bar>
     then nudged\<lparr>currentRef := \<lparr>t_scale = 1, t_x = 1 - p * (9 / 10), t_y = 0\<rparr>\<rparr>
     else syncRefs_fixed (commitToState
            (nudged\<lparr>currentRef := \<lparr>t_scale = 1, t_x = 1 - p * (9 / 10), t_y = 0\<rparr>,
                    rafRef := False\<rparr>)))"
proof -
  have m: "applyMomentum_fixed c = c"
    by (rule applyMomentum_fixed_rest) (simp_all add: c_def nudged_def mounted_def)
  have i: "interpolate_fixed c = nudged\<lparr>currentRef := \<lparr>t_scale = 1, t_x = 1 - p * (9 / 10), t_y = 0\<rparr>\<rparr>"
    by (simp add: interpolate_fixed_def Let_def c_def nudged_def algebra_simps diff_divide_distrib)
  have s: "isStillMoving_fixed c \<longleftrightarrow> 1 / 10 < \<bar>p\<bar>"
    by (simp add: isStillMoving_fixed_def Let_def c_def nudged_def mounted_def)
  have g: "\<not> isDragging c" "\<not> isPinching c" by (simp_all add: c_def nudged_def mounted_def)
  show ?thesis
    unfolding step_fixed_def Let_def m i s using g by (simp add: nudged_def)
qed

lemma nudge_frames:
  "n \<le> 22 \<Longrightarrow> frames_fixed n nudged =
     nudged\<lparr>currentRef := \<lparr>t_scale = 1, t_x = 1 - (9 / 10) ^ n, t_y = 0\<rparr>\<rparr>"
proof (induction n)
  case 0
  show ?case by (simp add: nudged_def mounted_def defaultProps_def)
next
  case (Suc n)
  have "(9 / 10 :: real) ^ 21 \<le> (9 / 10) ^ n"
    using Suc.prems by (intro power_decreasing) simp_all
  moreover have "(1 / 10 :: real) < (9 / 10) ^ 21" by (simp add: power_divide)
  ultimately have "(1 / 10 :: real) < (9 / 10) ^ n" by linarith
  then have far: "(1 / 10 :: real) < \<bar>(9 / 10) ^ n\<bar>" by simp
  from Suc have ih: "frames_fixed n nudged =
     nudged\<lparr>currentRef := \<lparr>t_scale = 1, t_x = 1 - (9 / 10) ^ n, t_y = 0\<rparr>\<rparr>" by simp
  show ?case
    unfolding frames_fixed_Suc_end ih Let_def nudge_step using far
    by (simp add: nudged_def)
qed

text \<open>
  The second component's loop from the same start: it stops after 20 frames with
  the displayed transform on the target, which is still where the drag put it.
\<close>

lemma snapping_loop_reaches_target:
  "settled (frames 20 16.667 nudged)
   \<and> currentRef (frames 20 16.667 nudged) = \<lparr>t_scale = 1, t_x = 1, t_y = 0\<rparr>"
proof -
  have c: "rafRef nudged" "idle nudged" "velocityRef nudged = (0, 0)"
    "targetRef nudged = \<lparr>t_scale = 1, t_x = 1, t_y = 0\<rparr>"
    "currentRef nudged = \<lparr>t_scale = 1, t_x = 0, t_y = 0\<rparr>"
    by (simp_all add: nudged_def mounted_def defaultProps_def idle_def)
  have q: "(1 - 0.12) powr (16.667 / 16.667) = (22 / 25 :: real)" by simp
  have n: "(20 :: nat) = Suc 19" by simp
  have "settled (frames (Suc 19) 16.667 nudged)"
    by (rule at_rest_converges [OF _ _ c(1-3)]) (simp_all add: q c(4,5) power_divide)
  then have s: "settled (frames 20 16.667 nudged)" by (simp only: n)
  have t: "targetRef (frames 20 16.667 nudged) = targetRef nudged"
    using rest_target [OF c(2,3), of 20] by simp
  from s t show ?thesis by (simp add: settled_def c(4))
qed

text \<open>
  Claim C4. The loop of the second component reschedules unless no gesture is active
  and every distance and velocity component is within its tolerance, and on stopping
  it sets the displayed transform to the target and commits it (lemmas
  \<open>step_stops_only_when\<close>, \<open>step_settles\<close>); with frames a fixed time of at most 100 ms
  apart it reaches that state after any button zoom (lemmas \<open>loop_converges\<close>,
  \<open>button_converges\<close>), within 56 frames for the first \<open>zoomIn\<close> at the defaults (lemma
  \<open>default_zoomIn_settles\<close>). The loop of the first component has the same stop test
  but never assigns the target to the displayed transform: it commits the displayed
  transform where the last interpolation left it, and the effect that follows the
  commit moves the target back onto it (lemma \<open>step_fixed_never_snaps\<close>). With the
  target one pixel to the right, where frame 22 still finds it, the loop stops at
  frame 23 with the displayed offset \<open>1 - 0.9 ^ 23\<close>, about 0.089 short of that pixel;
  state and target are then the same short value, so the view stays there.
\<close>

theorem fixed_loop_stops_short:
  "rafRef (frames_fixed 22 nudged)
   \<and> targetRef (frames_fixed 22 nudged) = \<lparr>t_scale = 1, t_x = 1, t_y = 0\<rparr>
   \<and> \<not> rafRef (frames_fixed 23 nudged)
   \<and> currentRef (frames_fixed 23 nudged) = \<lparr>t_scale = 1, t_x = 1 - (9 / 10) ^ 23, t_y = 0\<rparr>
   \<and> currentRef (frames_fixed 23 nudged) \<noteq> targetRef (frames_fixed 22 nudged)
   \<and> targetRef (frames_fixed 23 nudged) = \<lparr>t_scale = 1, t_x = 1 - (9 / 10) ^ 23, t_y = 0\<rparr>
   \<and> zoomPan (frames_fixed 23 nudged) =
       \<lparr>scale = 1, translateX = 1 - (9 / 10) ^ 23, translateY = 0, isImmediate = False\<rparr>"
proof -
  have n: "(23 :: nat) = Suc 22" by simp
  have near: "\<not> (1 / 10 :: real) < \<bar>(9 / 10) ^ 22\<bar>" by (simp add: power_divide)
  have b: "frames_fixed 22 nudged =
     nudged\<lparr>currentRef := \<lparr>t_scale = 1, t_x = 1 - (9 / 10) ^ 22, t_y = 0\<rparr>\<rparr>"
    by (rule nudge_frames) simp
  have f: "frames_fixed 23 nudged =
     syncRefs_fixed (commitToState
       (nudged\<lparr>currentRef := \<lparr>t_scale = 1, t_x = 1 - (9 / 10) ^ 22 * (9 / 10), t_y = 0\<rparr>,
               rafRef := False\<rparr>))"
    unfolding n frames_fixed_Suc_end b Let_def nudge_step
    using near by (simp add: nudged_def)
  have p: "(9 / 10 :: real) ^ 22 * (9 / 10) = (9 / 10) ^ 23" by (simp add: power_divide)
  have short: "(1 :: real) - (9 / 10) ^ 23 \<noteq> 1" by simp
  have 1: "rafRef (frames_fixed 22 nudged)"
    "targetRef (frames_fixed 22 nudged) = \<lparr>t_scale = 1, t_x = 1, t_y = 0\<rparr>"
    unfolding b by (simp_all add: nudged_def)
  have 2: "\<not> rafRef (frames_fixed 23 nudged)"
    "currentRef (frames_fixed 23 nudged) = \<lparr>t_scale = 1, t_x = 1 - (9 / 10) ^ 23, t_y = 0\<rparr>"
    "targetRef (frames_fixed 23 nudged) = \<lparr>t_scale = 1, t_x = 1 - (9 / 10) ^ 23, t_y = 0\<rparr>"
    "zoomPan (frames_fixed 23 nudged) =
       \<lparr>scale = 1, translateX = 1 - (9 / 10) ^ 23, translateY = 0, isImmediate = False\<rparr>"
    unfolding f p
    by (simp_all add: syncRefs_fixed_def commitToState_def nudged_def mounted_def defaultProps_def
        Let_def)
  have 3: "currentRef (frames_fixed 23 nudged) \<noteq> targetRef (frames_fixed 22 nudged)"
    unfolding 1(2) 2(2) using short by simp
  from 1 2 3 show ?thesis by blast
qed

section \<open>Momentum\<close>

subsection \<open>The second component's loop while it coasts\<close>

lemma magnitude_x: "0 \<le> a \<Longrightarrow> magnitude (a, 0) = a"
  by (simp add: magnitude_def)

lemma friction_103: "(5 / 100 :: real) < 10 * (95 / 100) ^ 103"
  by (simp add: power_divide)

lemma friction_104: "10 * (95 / 100) ^ 104 < (5 / 100 :: real)"
  by (simp add: power_divide)

lemma coast_fast:
  assumes "n \<le> 103"
  shows "(5 / 100 :: real) < 10 * (95 / 100) ^ n"
proof -
  have "(95 / 100 :: real) ^ 103 \<le> (95 / 100) ^ n"
    using assms by (intro power_decreasing) simp_all
  then show ?thesis using friction_103 by linarith
qed

lemma timeScale_one: "(16.667 :: real) / 16.667 = 1" by simp

lemma coast_step:
  assumes "coastingAt n c" and "n \<le> 103"
  defines "c' \<equiv> step (lastFrameTimeRef c + 16.667) c"
  shows "coastingAt (Suc n) c'"
    and "t_x (targetRef c') = t_x (targetRef c) + 10 * (95 / 100) ^ n"
proof -
  let ?v = "10 * (95 / 100 :: real) ^ n"
  let ?g = "t_x (targetRef c) - t_x (currentRef c)"
  from assms(1) have c: "rafRef c" "idle c" "velocityRef c = (?v, 0)"
    and g: "0 \<le> ?g" "n = 1 \<Longrightarrow> 8.8 \<le> ?g" "2 \<le> n \<Longrightarrow> 15 * (95 / 100) ^ n \<le> ?g"
    by (simp_all add: coastingAt_def Let_def)
  have v: "5 / 100 < ?v" by (rule coast_fast [OF assms(2)])
  let ?c0 = "c\<lparr>lastFrameTimeRef := lastFrameTimeRef c + 16.667\<rparr>"
  have m: "applyMomentum 1 ?c0 =
      ?c0\<lparr>targetRef := (targetRef c)\<lparr>t_x := t_x (targetRef c) + ?v\<rparr>,
           velocityRef := (?v * (95 / 100), 0)\<rparr>"
    using c(2,3) v by (simp add: applyMomentum_def Let_def idle_def)
  have still: "isStillMoving (applyMomentum 1 ?c0)"
  proof (cases "n < 2")
    case True
    then have "n = 0 \<or> n = 1" by auto
    then have "1 / 10 < ?v * (95 / 100)" by auto
    then show ?thesis unfolding m by (simp add: isStillMoving_def Let_def)
  next
    case False
    then have "15 * (95 / 100) ^ n \<le> ?g" using g(3) by simp
    then have "1 / 10 < ?g + ?v" using v by linarith
    then have "1 / 10 < \<bar>t_x (targetRef c) + ?v - t_x (currentRef c)\<bar>" by linarith
    then show ?thesis unfolding m by (simp add: isStillMoving_def Let_def)
  qed
  have s: "c' = (interpolate 1 (applyMomentum 1 ?c0))\<lparr>rafRef := True\<rparr>"
    unfolding c'_def step_def Let_def using still by (simp add: timeScale_one)
  show t: "t_x (targetRef c') = t_x (targetRef c) + ?v"
    unfolding s m by simp
  have cur: "t_x (currentRef c') = t_x (currentRef c) + (?g + ?v) * (12 / 100)"
    unfolding s m by (simp add: interpolate_def Let_def)
  have g': "t_x (targetRef c') - t_x (currentRef c') = (?g + ?v) * (88 / 100)"
    unfolding t cur by (simp add: algebra_simps)
  have "0 \<le> (?g + ?v) * (88 / 100)" using g(1) v by simp
  moreover have "8.8 \<le> (?g + ?v) * (88 / 100)" if "Suc n = 1"
    using that g(1) by simp
  moreover have "15 * (95 / 100) ^ Suc n \<le> (?g + ?v) * (88 / 100)" if "2 \<le> Suc n"
  proof (cases "n = 1")
    case True
    then show ?thesis using g(2) by simp
  next
    case False
    with that have "2 \<le> n" by simp
    then have "15 * (95 / 100) ^ n \<le> ?g" by (rule g(3))
    then show ?thesis using v by simp
  qed
  moreover have "rafRef c'" unfolding s by simp
  moreover have "idle c'" unfolding c'_def using c(2) by simp
  moreover have "velocityRef c' = (10 * (95 / 100) ^ Suc n, 0)" unfolding s m by simp
  ultimately show "coastingAt (Suc n) c'"
    unfolding coastingAt_def Let_def g' by blast
qed

lemma frames_Suc_end:
  "frames (Suc n) dt c =
     (let c' = frames n dt c in if rafRef c' then step (lastFrameTimeRef c' + dt) c' else c')"
proof -
  have "frames (n + 1) dt c = frames 1 dt (frames n dt c)" by (rule frames_add)
  then show ?thesis by (simp add: Let_def)
qed

lemma geometric_sum_step: "200 * (1 - (95 / 100 :: real) ^ n) + 10 * (95 / 100) ^ n = 200 * (1 - (95 / 100) ^ Suc n)"
  by simp

lemma coast_frames:
  assumes "coastingAt 0 c"
  shows "n \<le> 104 \<Longrightarrow> coastingAt n (frames n 16.667 c) \<and>
     t_x (targetRef (frames n 16.667 c)) = t_x (targetRef c) + 200 * (1 - (95 / 100) ^ n)"
proof (induction n)
  case 0
  show ?case using assms by simp
next
  case (Suc n)
  let ?c = "frames n 16.667 c"
  from Suc have ih: "coastingAt n ?c"
    "t_x (targetRef ?c) = t_x (targetRef c) + 200 * (1 - (95 / 100) ^ n)" and n: "n \<le> 103"
    by simp_all
  have r: "rafRef ?c" using ih(1) by (simp add: coastingAt_def)
  have f: "frames (Suc n) 16.667 c = step (lastFrameTimeRef ?c + 16.667) ?c"
    unfolding frames_Suc_end Let_def using r by simp
  show ?case
    unfolding f using coast_step [OF ih(1) n] ih(2) geometric_sum_step [of n]
    by (simp only:) simp
qed

lemma rest_forever:
  "idle c \<Longrightarrow> velocityRef c = (0, 0) \<Longrightarrow>
   velocityRef (frames n 16.667 c) = (0, 0) \<and> targetRef (frames n 16.667 c) = targetRef c"
proof (induction n arbitrary: c)
  case 0 then show ?case by simp
next
  case (Suc n)
  show ?case
  proof (cases "rafRef c")
    case False then show ?thesis using Suc.prems by (simp add: frames_stopped)
  next
    case True
    let ?c' = "step (lastFrameTimeRef c + 16.667) c"
    have "velocityRef ?c' = (0, 0)" "targetRef ?c' = targetRef c" "idle ?c'"
      using rest_frame(1,2) [OF Suc.prems, of "16.667"] Suc.prems(1) by simp_all
    then show ?thesis using Suc.IH [of ?c'] True by simp
  qed
qed

lemma coast_end:
  assumes "coastingAt 104 c"
  defines "c' \<equiv> step (lastFrameTimeRef c + 16.667) c"
  shows "velocityRef c' = (0, 0)" and "targetRef c' = targetRef c" and "idle c'"
proof -
  from assms(1) have c: "idle c" "velocityRef c = (10 * (95 / 100) ^ 104, 0)"
    by (simp_all add: coastingAt_def)
  have slow: "\<not> (\<bar>fst (velocityRef c)\<bar> > 0.05 \<or> \<bar>snd (velocityRef c)\<bar> > 0.05)"
    unfolding c(2) using friction_104 by (simp add: power_divide)
  have "velocityRef c' =
     (if \<bar>fst (velocityRef c)\<bar> > 0.05 \<or> \<bar>snd (velocityRef c)\<bar> > 0.05
      then (fst (velocityRef c) * 0.95 powr (16.667 / 16.667),
            snd (velocityRef c) * 0.95 powr (16.667 / 16.667))
      else (0, 0))"
    unfolding c'_def by (rule step_velocity [OF c(1)]) simp
  then show "velocityRef c' = (0, 0)" using slow by (simp only: if_False)
  show "idle c'" unfolding c'_def using c(1) by simp
  let ?c0 = "c\<lparr>lastFrameTimeRef := lastFrameTimeRef c + 16.667\<rparr>"
  have "applyMomentum ts ?c0 = ?c0\<lparr>velocityRef := (0, 0)\<rparr>" for ts
    using c(1) slow by (simp add: applyMomentum_def Let_def idle_def)
  then show "targetRef c' = targetRef c"
    unfolding c'_def step_def Let_def by (simp add: commitToState_def)
qed

lemma shrink: "(95 / 100 :: real) ^ Suc n < (95 / 100) ^ n"
  by simp

lemma coast_velocity_zeroed:
  assumes "coastingAt 0 c" and "105 \<le> n"
  shows "velocityRef (frames n 16.667 c) = (0, 0)"
    and "targetRef (frames n 16.667 c) = targetRef (frames 104 16.667 c)"
proof -
  let ?c = "frames 104 16.667 c"
  have c: "coastingAt 104 ?c" using coast_frames [OF assms(1), of 104] by simp
  then have r: "rafRef ?c" by (simp add: coastingAt_def)
  let ?c' = "step (lastFrameTimeRef ?c + 16.667) ?c"
  note e = coast_end [OF c]
  obtain j where "n = 105 + j" using assms(2) le_iff_add by blast
  then have n: "n = 104 + Suc j" by simp
  have f: "frames n 16.667 c = frames j 16.667 ?c'"
    unfolding n frames_add using r by simp
  show "velocityRef (frames n 16.667 c) = (0, 0)"
    unfolding f using rest_forever [OF e(3,1)] by simp
  show "targetRef (frames n 16.667 c) = targetRef ?c"
    unfolding f using rest_forever [OF e(3,1), of j] e(2) by simp
qed

subsection \<open>The registry component's momentum loop\<close>

lemma momentumFrames_stopped: "\<not> rafRef c \<Longrightarrow> momentumFrames n c = c"
  by (cases n) simp_all

lemma momentumFrames_add: "momentumFrames (m + n) c = momentumFrames n (momentumFrames m c)"
proof (induction m arbitrary: c)
  case 0 show ?case by simp
next
  case (Suc m)
  show ?case
  proof (cases "rafRef c")
    case True then show ?thesis using Suc.IH by simp
  next
    case False then show ?thesis by (simp add: momentumFrames_stopped)
  qed
qed

lemma momentumFrames_Suc_end:
  "momentumFrames (Suc n) c =
     (let c' = momentumFrames n c in if rafRef c' then momentumStep c' else c')"
proof -
  have "momentumFrames (n + 1) c = momentumFrames 1 (momentumFrames n c)"
    by (rule momentumFrames_add)
  then show ?thesis by (simp add: Let_def)
qed

lemma momentum_frames:
  assumes "rafRef c" and "velocityRef c = (10, 0)"
  shows "n \<le> 104 \<Longrightarrow> rafRef (momentumFrames n c) \<and>
     velocityRef (momentumFrames n c) = (10 * (95 / 100) ^ n, 0) \<and>
     translateX (zoomPan (momentumFrames n c)) = translateX (zoomPan c) + 200 * (1 - (95 / 100) ^ n)"
proof (induction n)
  case 0
  show ?case using assms by simp
next
  case (Suc n)
  let ?c = "momentumFrames n c"
  from Suc have ih: "rafRef ?c" "velocityRef ?c = (10 * (95 / 100) ^ n, 0)"
    "translateX (zoomPan ?c) = translateX (zoomPan c) + 200 * (1 - (95 / 100) ^ n)"
    and n: "n \<le> 103" by simp_all
  have v: "5 / 100 < 10 * (95 / 100 :: real) ^ n" by (rule coast_fast [OF n])
  have f: "momentumFrames (Suc n) c = momentumStep ?c"
    unfolding momentumFrames_Suc_end Let_def using ih(1) by simp
  have "momentumStep ?c =
      ?c\<lparr>zoomPan := (zoomPan ?c)\<lparr>translateX := translateX (zoomPan ?c) + 10 * (95 / 100) ^ n,
                                    translateY := translateY (zoomPan ?c) + 0,
                                    isImmediate := True\<rparr>,
          velocityRef := (10 * (95 / 100) ^ n * 0.95, 0 * 0.95), rafRef := True\<rparr>"
    using v by (simp add: momentumStep_def ih(2) Let_def)
  then show ?case unfolding f using ih(3) geometric_sum_step [of n] by simp
qed

lemma momentum_stops:
  assumes "rafRef c" and "velocityRef c = (10, 0)" and "105 \<le> n"
  shows "momentumFrames n c = (momentumFrames 104 c)\<lparr>rafRef := False\<rparr>"
proof -
  let ?c = "momentumFrames 104 c"
  have c: "rafRef ?c" "velocityRef ?c = (10 * (95 / 100) ^ 104, 0)"
    using momentum_frames [OF assms(1,2), of 104] by simp_all
  have s: "momentumStep ?c = ?c\<lparr>rafRef := False\<rparr>"
    using friction_104 by (simp add: momentumStep_def c(2) power_divide)
  obtain j where "n = 105 + j" using assms(3) le_iff_add by blast
  then have n: "n = 104 + Suc j" by simp
  have "momentumFrames (Suc j) ?c = momentumFrames j (momentumStep ?c)" using c(1) by simp
  also have "\<dots> = ?c\<lparr>rafRef := False\<rparr>" unfolding s by (simp add: momentumFrames_stopped)
  finally show ?thesis unfolding n momentumFrames_add .
qed

subsection \<open>Decay from the velocity (10, 0)\<close>

text \<open>
  Claim C5 as stated has the velocity set to zero once it is under the threshold.
  The registry component's momentum loop returns there without touching the
  velocity: after 105 frames it has stopped and the velocity is still
  \<open>10 * 0.95 ^ 104\<close>.
\<close>

theorem momentum_residual_counterexample:
  "\<not> rafRef (momentumFrames 105 released)
   \<and> velocityRef (momentumFrames 105 released) = (10 * (95 / 100) ^ 104, 0)
   \<and> velocityRef (momentumFrames 105 released) \<noteq> (0, 0)"
proof -
  have r: "rafRef released" "velocityRef released = (10, 0)" by (simp_all add: released_def)
  have "momentumFrames 105 released = (momentumFrames 104 released)\<lparr>rafRef := False\<rparr>"
    by (rule momentum_stops [OF r]) simp
  then show ?thesis using momentum_frames [OF r, of 104] by simp
qed

text \<open>
  Claim C5, amended. From the velocity \<open>(10, 0)\<close>, with no gesture, at \<open>timeScale = 1\<close>
  and with the displayed offset not ahead of the target: for 104 frames the offset
  the momentum drives (the target's \<open>x\<close> in the second component, \<open>translateX\<close> in the
  registry component) grows strictly and the velocity magnitude shrinks strictly;
  from then on the offset no longer changes. The second component's loop sets the
  velocity to zero in frame 105; the registry component's loop stops there and leaves
  the velocity at \<open>10 * 0.95 ^ 104\<close>, under the threshold.
\<close>

theorem momentum_decay:
  assumes "velocityRef c = (10, 0)" and "rafRef c" and "\<not> isDragging c" and "\<not> isPinching c"
      and "t_x (currentRef c) \<le> t_x (targetRef c)"
  shows "(\<forall>n<104. t_x (targetRef (frames n 16.667 c)) < t_x (targetRef (frames (Suc n) 16.667 c)))
     \<and> (\<forall>n<105. magnitude (velocityRef (frames (Suc n) 16.667 c))
                 < magnitude (velocityRef (frames n 16.667 c)))
     \<and> (\<forall>n\<ge>105. velocityRef (frames n 16.667 c) = (0, 0))
     \<and> (\<forall>n\<ge>104. t_x (targetRef (frames n 16.667 c)) = t_x (targetRef (frames 104 16.667 c)))
     \<and> (\<forall>n<104. translateX (zoomPan (momentumFrames n c))
                   < translateX (zoomPan (momentumFrames (Suc n) c))
                 \<and> magnitude (velocityRef (momentumFrames (Suc n) c))
                   < magnitude (velocityRef (momentumFrames n c)))
     \<and> (\<forall>n\<ge>104. translateX (zoomPan (momentumFrames n c))
                   = translateX (zoomPan (momentumFrames 104 c))
                 \<and> velocityRef (momentumFrames n c) = (10 * (95 / 100) ^ 104, 0))
     \<and> (\<forall>n\<ge>105. \<not> rafRef (momentumFrames n c))"
proof -
  have c0: "coastingAt 0 c"
    using assms by (simp add: coastingAt_def idle_def Let_def)
  note cf = coast_frames [OF c0]
  note mf = momentum_frames [OF assms(2,1)]
  have v: "velocityRef (frames n 16.667 c) = (10 * (95 / 100) ^ n, 0)" if "n \<le> 104" for n
    using cf [OF that] by (simp add: coastingAt_def)
  have A: "\<forall>n<104. t_x (targetRef (frames n 16.667 c)) < t_x (targetRef (frames (Suc n) 16.667 c))"
  proof (intro allI impI)
    fix n :: nat assume "n < 104"
    then have "n \<le> 104" "Suc n \<le> 104" by simp_all
    from cf [OF this(1)] cf [OF this(2)] shrink [of n]
    show "t_x (targetRef (frames n 16.667 c)) < t_x (targetRef (frames (Suc n) 16.667 c))"
      by (simp only:) simp
  qed
  have B: "\<forall>n<105. magnitude (velocityRef (frames (Suc n) 16.667 c))
                 < magnitude (velocityRef (frames n 16.667 c))"
  proof (intro allI impI)
    fix n :: nat assume n: "n < 105"
    show "magnitude (velocityRef (frames (Suc n) 16.667 c)) < magnitude (velocityRef (frames n 16.667 c))"
    proof (cases "n < 104")
      case True
      then have "n \<le> 104" "Suc n \<le> 104" by simp_all
      from v [OF this(1)] v [OF this(2)] shrink [of n] show ?thesis
        by (simp only: magnitude_x zero_le_mult_iff zero_le_power) (simp add: magnitude_x)
    next
      case False
      with n have n104: "n = 104" by simp
      have "velocityRef (frames (Suc n) 16.667 c) = (0, 0)"
        using coast_velocity_zeroed(1) [OF c0, of "Suc n"] n104 by simp
      moreover have "velocityRef (frames n 16.667 c) = (10 * (95 / 100) ^ n, 0)"
        using v [of n] n104 by simp
      ultimately show ?thesis by (simp add: magnitude_x)
    qed
  qed
  have C: "\<forall>n\<ge>105. velocityRef (frames n 16.667 c) = (0, 0)"
    using coast_velocity_zeroed(1) [OF c0] by blast
  have D: "\<forall>n\<ge>104. t_x (targetRef (frames n 16.667 c)) = t_x (targetRef (frames 104 16.667 c))"
  proof (intro allI impI)
    fix n :: nat assume "104 \<le> n"
    then have "n = 104 \<or> 105 \<le> n" by auto
    then show "t_x (targetRef (frames n 16.667 c)) = t_x (targetRef (frames 104 16.667 c))"
      using coast_velocity_zeroed(2) [OF c0, of n] by auto
  qed
  have E: "\<forall>n<104. translateX (zoomPan (momentumFrames n c))
                   < translateX (zoomPan (momentumFrames (Suc n) c))
                 \<and> magnitude (velocityRef (momentumFrames (Suc n) c))
                   < magnitude (velocityRef (momentumFrames n c))"
  proof (intro allI impI)
    fix n :: nat assume "n < 104"
    then have "n \<le> 104" "Suc n \<le> 104" by simp_all
    from mf [OF this(1)] mf [OF this(2)] shrink [of n]
    show "translateX (zoomPan (momentumFrames n c))
                   < translateX (zoomPan (momentumFrames (Suc n) c))
                 \<and> magnitude (velocityRef (momentumFrames (Suc n) c))
                   < magnitude (velocityRef (momentumFrames n c))"
      by (simp add: magnitude_x)
  qed
  have F: "\<forall>n\<ge>104. translateX (zoomPan (momentumFrames n c))
                   = translateX (zoomPan (momentumFrames 104 c))
                 \<and> velocityRef (momentumFrames n c) = (10 * (95 / 100) ^ 104, 0)"
  proof (intro allI impI)
    fix n :: nat assume "104 \<le> n"
    then have "n = 104 \<or> 105 \<le> n" by auto
    then show "translateX (zoomPan (momentumFrames n c))
                   = translateX (zoomPan (momentumFrames 104 c))
                 \<and> velocityRef (momentumFrames n c) = (10 * (95 / 100) ^ 104, 0)"
      using momentum_stops [OF assms(2,1), of n] mf [of 104] by auto
  qed
  have G: "\<forall>n\<ge>105. \<not> rafRef (momentumFrames n c)"
    using momentum_stops [OF assms(2,1)] by simp
  from A B C D E F G show ?thesis by (intro conjI)
qed

theorem momentum_decay_witness:
  "t_x (targetRef (frames 0 16.667 released)) < t_x (targetRef (frames 1 16.667 released))
   \<and> magnitude (velocityRef (frames 105 16.667 released)) < magnitude (velocityRef (frames 104 16.667 released))
   \<and> velocityRef (frames 105 16.667 released) = (0, 0)
   \<and> t_x (targetRef (frames 200 16.667 released)) = t_x (targetRef (frames 104 16.667 released))
   \<and> translateX (zoomPan (momentumFrames 0 released)) < translateX (zoomPan (momentumFrames 1 released))
   \<and> translateX (zoomPan (momentumFrames 200 released)) = translateX (zoomPan (momentumFrames 104 released))
   \<and> \<not> rafRef (momentumFrames 105 released)"
proof -
  have h: "velocityRef released = (10, 0)" "rafRef released" "\<not> isDragging released"
    "\<not> isPinching released" "t_x (currentRef released) \<le> t_x (targetRef released)"
    by (simp_all add: released_def mounted_def)
  note T = momentum_decay [OF h]
  have n: "(0::nat) < 104" "(104::nat) < 105" "(105::nat) \<le> 105" "(104::nat) \<le> 200" "Suc 0 = 1"
    "Suc 104 = 105" by simp_all
  from T n show ?thesis by metis
qed

end
